theory Spec2Isabelle
  imports Main
begin

section \<open>JavaScript values, objects and error objects\<close>

text \<open>
  Values that flow through the data-access layer. Numbers are modelled as integers plus the
  non-finite values that \<open>Number.isFinite\<close> rejects; \<open>JUndefined\<close> is the value of a missing
  property. Objects keep their insertion order (\<open>Object.keys\<close> order decides the column order
  of the generated statements), so they are association lists with distinct keys.
\<close>

datatype jsval =
    JUndefined
  | JNull
  | JBool bool
  | JNum int
  | JNaN
  | JInfinity bool
  | JStr string
  | JDate int
  | JArr "jsval list"
  | JObj "(string \<times> jsval) list"

type_synonym jsobject = "(string \<times> jsval) list"

fun truthy :: "jsval \<Rightarrow> bool" where
  "truthy JUndefined = False"
| "truthy JNull = False"
| "truthy (JBool b) = b"
| "truthy (JNum n) = (n \<noteq> 0)"
| "truthy JNaN = False"
| "truthy (JInfinity s) = True"
| "truthy (JStr s) = (s \<noteq> [])"
| "truthy (JDate t) = True"
| "truthy (JArr xs) = True"
| "truthy (JObj kvs) = True"

definition obj_get :: "jsobject \<Rightarrow> string \<Rightarrow> jsval" where
  "obj_get obj k = (case map_of obj k of None \<Rightarrow> JUndefined | Some v \<Rightarrow> v)"

definition obj_has :: "jsobject \<Rightarrow> string \<Rightarrow> bool" where
  "obj_has obj k = (k \<in> set (map fst obj))"

fun obj_set :: "string \<Rightarrow> jsval \<Rightarrow> jsobject \<Rightarrow> jsobject" where
  "obj_set k v [] = [(k, v)]"
| "obj_set k v ((k', v') # rest) =
     (if k' = k then (k, v) # rest else (k', v') # obj_set k v rest)"

definition obj_delete :: "string \<Rightarrow> jsobject \<Rightarrow> jsobject" where
  "obj_delete k obj = filter (\<lambda>kv. fst kv \<noteq> k) obj"

definition obj_assign :: "jsobject \<Rightarrow> jsobject \<Rightarrow> jsobject" where
  "obj_assign target source = fold (\<lambda>kv acc. obj_set (fst kv) (snd kv) acc) source target"

text \<open>
  \<open>name in object\<close>, and the truth of \<open>object[name]\<close> when every own value is truthy, for
  an object written as a literal: true of the object's own keys and of the property names
  every such object inherits from \<open>Object.prototype\<close>.
\<close>

definition object_prototype_properties :: "string list" where
  "object_prototype_properties =
     [''constructor'', ''__defineGetter__'', ''__defineSetter__'', ''hasOwnProperty'',
      ''__lookupGetter__'', ''__lookupSetter__'', ''isPrototypeOf'', ''propertyIsEnumerable'',
      ''toString'', ''valueOf'', ''__proto__'', ''toLocaleString'']"

definition js_in :: "string \<Rightarrow> string list \<Rightarrow> bool" where
  "js_in name ownKeys = (name \<in> set ownKeys \<or> name \<in> set object_prototype_properties)"

text \<open>
  Every error the code throws is an \<open>Error\<close> object; the fields are the ones the classes of
  \<open>errors.ts\<close> and the storage driver's error objects carry. \<open>err_name\<close> is \<open>error.name\<close>,
  which is what distinguishes the kinds (\<open>instanceof\<close>).
\<close>

datatype js_error = JsError
  (err_name: string)
  (err_message: string)
  (err_code: "string option")
  (err_detail: "string option")
  (err_constraint: "string option")
  (err_column: "string option")
  (err_field: "string option")
  (err_original: "js_error option")

definition Error :: "string \<Rightarrow> js_error" where
  "Error msg = JsError ''Error'' msg None None None None None None"

definition TypeError :: "string \<Rightarrow> js_error" where
  "TypeError msg = JsError ''TypeError'' msg None None None None None None"

definition DALError :: "string \<Rightarrow> string option \<Rightarrow> js_error" where
  "DALError msg code = JsError ''DALError'' msg code None None None None None"

definition DocumentNotFound :: "string \<Rightarrow> js_error" where
  "DocumentNotFound msg =
     JsError ''DocumentNotFound'' msg (Some ''DOCUMENT_NOT_FOUND'') None None None None None"

definition InvalidUUIDError :: "string \<Rightarrow> js_error" where
  "InvalidUUIDError msg =
     JsError ''InvalidUUIDError'' msg (Some ''INVALID_UUID'') None None None None None"

definition ValidationError :: "string \<Rightarrow> string option \<Rightarrow> js_error" where
  "ValidationError msg fld =
     JsError ''ValidationError'' msg (Some ''VALIDATION_ERROR'') None None None fld None"

definition ConnectionError :: "string \<Rightarrow> js_error" where
  "ConnectionError msg =
     JsError ''ConnectionError'' msg (Some ''CONNECTION_ERROR'') None None None None None"

definition QueryError :: "string \<Rightarrow> js_error option \<Rightarrow> js_error" where
  "QueryError msg orig =
     JsError ''QueryError'' msg (Some ''QUERY_ERROR'') None None None None orig"

definition ConstraintError :: "string \<Rightarrow> string option \<Rightarrow> js_error" where
  "ConstraintError msg c =
     JsError ''ConstraintError'' msg (Some ''CONSTRAINT_ERROR'') None c None None None"

definition deletedError :: js_error where
  "deletedError =
     JsError ''RevisionDeletedError'' ''Revision has been deleted.'' None None None None None None"

definition staleError :: js_error where
  "staleError = JsError ''RevisionStaleError'' ''Outdated revision.'' None None None None None None"

text \<open>A raw error object of the storage driver: vendor code, message, detail, constraint, column.\<close>

definition PostgresError ::
  "string \<Rightarrow> string \<Rightarrow> string option \<Rightarrow> string option \<Rightarrow> string option \<Rightarrow> js_error" where
  "PostgresError code msg detail cons col = JsError ''error'' msg (Some code) detail cons col None None"

definition orElse :: "'a option \<Rightarrow> 'a \<Rightarrow> 'a" where
  "orElse x d = (case x of None \<Rightarrow> d | Some y \<Rightarrow> y)"

text \<open>
  \<open>convertPostgreSQLError\<close>: a switch on \<open>error.code\<close>. The argument is always an error
  object here (the first branch of the source, for a thrown non-object, is never reached by
  the code below), and its message is always a string.
\<close>

definition convertPostgreSQLError :: "js_error \<Rightarrow> js_error" where
  "convertPostgreSQLError e =
     (let message = err_message e; code = err_code e in
      if code = Some ''23505'' then
        ConstraintError (''Unique constraint violation: '' @ orElse (err_detail e) message)
          (err_constraint e)
      else if code = Some ''23503'' then
        ConstraintError (''Foreign key constraint violation: '' @ orElse (err_detail e) message)
          (err_constraint e)
      else if code = Some ''23502'' then
        ValidationError (''Not null constraint violation: '' @ orElse (err_column e) message)
          (err_column e)
      else if code = Some ''23514'' then
        ValidationError (''Check constraint violation: '' @ orElse (err_detail e) message)
          (err_constraint e)
      else if code = Some ''08000'' \<or> code = Some ''08003'' \<or> code = Some ''08006'' then
        ConnectionError message
      else if code = Some ''42P01'' then QueryError (''Table does not exist: '' @ message) (Some e)
      else if code = Some ''42703'' then QueryError (''Column does not exist: '' @ message) (Some e)
      else QueryError message (Some e))"

section \<open>Strings\<close>

definition sq :: string where
  "sq = [CHR 0x27]"

definition dq :: string where
  "dq = [CHR 0x22]"

definition includes_char :: "string \<Rightarrow> char \<Rightarrow> bool" where
  "includes_char s c = (c \<in> set s)"

definition startsWith :: "string \<Rightarrow> string \<Rightarrow> bool" where
  "startsWith s p = (take (length p) s = p)"

fun join :: "string \<Rightarrow> string list \<Rightarrow> string" where
  "join sep [] = []"
| "join sep [x] = x"
| "join sep (x # y # ys) = x @ sep @ join sep (y # ys)"

function show_nat :: "nat \<Rightarrow> string" where
  "show_nat n =
     (if n < 10 then [char_of (48 + n)] else show_nat (n div 10) @ [char_of (48 + n mod 10)])"
  by pat_completeness auto
termination
  by (relation "measure id") auto

definition show_int :: "int \<Rightarrow> string" where
  "show_int i = (if i < 0 then ''-'' @ show_nat (nat (- i)) else show_nat (nat i))"

definition placeholders :: "nat \<Rightarrow> string list" where
  "placeholders n = map (\<lambda>i. ''$'' @ show_nat (Suc i)) [0..<n]"

declare show_nat.simps [simp del]

section \<open>Model classes: schema, field mappings, relations\<close>

text \<open>
  A schema entry (\<open>ModelSchemaField\<close>): the validation function (which returns the
  normalised value or throws), the flags, the default, and whether the entry is an instance of
  \<open>NumberType\<close>. Default factories are taken as already evaluated.
\<close>

record field_def =
  validate :: "jsval \<Rightarrow> string \<Rightarrow> js_error + jsval"
  isVirtual :: bool
  isSensitive :: bool
  hasDefault :: bool
  defaultValue :: jsval
  isNumberType :: bool

datatype cardinality = One | Many

datatype join_type = Through | Direct

record through_config =
  th_table :: string
  th_sourceColumn :: string
  th_targetColumn :: string
  th_sourceCondition :: "string option"
  th_targetCondition :: "string option"

text \<open>\<open>NormalizedRelationConfig\<close>, as \<open>_normalizeRelationConfig\<close> stores it.\<close>

record relation_config =
  rel_targetTable :: string
  rel_targetModelKey :: string
  rel_sourceColumn :: string
  rel_targetColumn :: string
  rel_hasRevisions :: bool
  rel_cardinality :: cardinality
  rel_isArray :: bool
  rel_through :: "through_config option"
  rel_joinType :: join_type
  rel_condition :: "string option"

record model_class =
  tableName :: string
  schema :: "(string \<times> field_def) list"
  fieldMappings :: "(string \<times> string) list"
  relations :: "(string \<times> relation_config) list"

definition getDbFieldName :: "model_class \<Rightarrow> string \<Rightarrow> string" where
  "getDbFieldName mc propertyName =
     (case map_of (fieldMappings mc) propertyName of
        None \<Rightarrow> propertyName
      | Some snake \<Rightarrow> if snake = [] then propertyName else snake)"

definition getRelation :: "model_class \<Rightarrow> string \<Rightarrow> relation_config option" where
  "getRelation mc name = map_of (relations mc) name"

definition getRelations :: "model_class \<Rightarrow> (string \<times> relation_config) list" where
  "getRelations mc = relations mc"

definition getFilteredColumnNames ::
  "model_class \<Rightarrow> (string \<times> field_def \<Rightarrow> bool) \<Rightarrow> string list" where
  "getFilteredColumnNames mc filterFn =
     map (\<lambda>entry. getDbFieldName mc (fst entry)) (filter filterFn (schema mc))"

definition getSafeColumnNames :: "model_class \<Rightarrow> string list" where
  "getSafeColumnNames mc =
     getFilteredColumnNames mc (\<lambda>entry. \<not> isVirtual (snd entry) \<and> \<not> isSensitive (snd entry))"

definition getColumnNames :: "model_class \<Rightarrow> string list \<Rightarrow> string list" where
  "getColumnNames mc includeSensitive =
     getFilteredColumnNames mc (\<lambda>entry.
       if isVirtual (snd entry) then False
       else if isSensitive (snd entry) \<and> fst entry \<notin> set includeSensitive then False
       else True)"

definition getSensitiveFieldNames :: "model_class \<Rightarrow> string list" where
  "getSensitiveFieldNames mc = map fst (filter (\<lambda>entry. isSensitive (snd entry)) (schema mc))"

section \<open>Query builder: predicates\<close>

text \<open>
  The placeholder transforms the code attaches to a predicate are three closures: the identity,
  a cast suffix, and the parenthesised form of \<open>whereIn\<close>, \<open>ops.in\<close> and \<open>ops.notIn\<close>. They
  are represented by name and applied by \<open>apply_transform\<close>.
\<close>

datatype value_transform = Identity | Cast string | Parenthesized "string option"

fun apply_transform :: "value_transform \<Rightarrow> string \<Rightarrow> string" where
  "apply_transform Identity placeholder = placeholder"
| "apply_transform (Cast c) placeholder = placeholder @ ''::'' @ c"
| "apply_transform (Parenthesized cast) placeholder =
     ''('' @ placeholder @
       (case cast of None \<Rightarrow> [] | Some c \<Rightarrow> if c = [] then [] else ''::'' @ c) @ '')''"

datatype conjunction = AND | OR

text \<open>
  \<open>BasicPredicate\<close>, \<open>GroupPredicate\<close>, \<open>RawPredicate\<close>. A basic predicate without a
  \<open>value\<close> property has \<open>p_value = JUndefined\<close> and no transform.
\<close>

datatype predicate =
    Basic (p_table: "string option") (p_column: string) (p_operator: string)
          (p_value: jsval) (p_transform: "value_transform option")
  | Group conjunction "predicate list"
  | Raw string "jsval list"

record pred_options =
  opt_table :: "string option"
  opt_serializeValue :: "(jsval \<Rightarrow> jsval) option"
  opt_cast :: "string option"
  opt_valueTransform :: "value_transform option"

definition no_options :: pred_options where
  "no_options = \<lparr>opt_table = None, opt_serializeValue = None, opt_cast = None,
                  opt_valueTransform = None\<rparr>"

text \<open>\<open>RelationJoinInfo\<close>, as \<open>_getJoinInfo\<close> returns it.\<close>

record join_info =
  ji_type :: join_type
  ji_table :: string
  ji_baseTable :: string
  ji_hasRevisions :: bool
  ji_condition :: string
  ji_sourceColumn :: string
  ji_targetColumn :: string
  ji_cardinality :: cardinality
  ji_isArray :: bool
  ji_targetModelKey :: string
  ji_joinTable :: "string option"
  ji_joinTableOn :: "string option"
  ji_joinTableSourceColumn :: "string option"
  ji_joinTableTargetColumn :: "string option"

text \<open>
  What \<open>_analyzeJoinApply\<close> extracts from the \<open>_apply\<close> callback of a join
  configuration. The extraction reads the callback's source text and is taken as given.
\<close>

record join_apply_filter =
  jf_field :: string
  jf_operator :: "string option"
  jf_value :: jsval

datatype sort_direction = ASC | DESC

record join_apply_analysis =
  an_removeFields :: "string list"
  an_filters :: "join_apply_filter list"
  an_order :: "(string \<times> sort_direction) option"
  an_limit :: "nat option"

record complex_join_spec =
  cj_joinInfo :: join_info
  cj_analysis :: "join_apply_analysis option"

text \<open>
  The state of a \<open>QueryBuilder\<close>. \<open>modelClass\<close> carries the table name; \<open>schemaNamespace\<close> and
  \<open>registry\<close> are what the builder reads from its \<open>dal\<close>. The scratch fields \<open>_params\<close> and
  \<open>_paramIndex\<close>, which \<open>_buildWhereClause\<close> overwrites and nothing reads, are left out.
\<close>

record query_builder =
  modelClass :: model_class
  schemaNamespace :: string
  registry :: "(string \<times> model_class) list"
  qb_select :: "string list"
  qb_where :: "predicate list"
  qb_joins :: "string list"
  qb_orderBy :: "string list"
  qb_groupBy :: "string list"
  qb_limit :: "int option"
  qb_offset :: "int option"
  qb_includeSensitive :: "string list"
  qb_simpleJoins :: "(string \<times> join_info) list"
  qb_complexJoins :: "(string \<times> complex_join_spec) list"

definition new_QueryBuilder ::
  "model_class \<Rightarrow> string \<Rightarrow> (string \<times> model_class) list \<Rightarrow> query_builder" where
  "new_QueryBuilder mc ns reg =
     \<lparr>modelClass = mc, schemaNamespace = ns, registry = reg,
      qb_select = [''*''], qb_where = [], qb_joins = [], qb_orderBy = [], qb_groupBy = [],
      qb_limit = None, qb_offset = None, qb_includeSensitive = [],
      qb_simpleJoins = [], qb_complexJoins = []\<rparr>"

definition resolveFieldName :: "query_builder \<Rightarrow> string \<Rightarrow> string" where
  "resolveFieldName qb fieldName = getDbFieldName (modelClass qb) fieldName"

definition assertResolvedField :: "query_builder \<Rightarrow> string \<Rightarrow> js_error + string" where
  "assertResolvedField qb field =
     (if includes_char field CHR ''.'' \<or> includes_char field CHR ''('' then Inr field
      else if resolveFieldName qb field \<noteq> field then
        Inl (Error (''QueryBuilder expected a resolved database column name but received ''
                    @ dq @ field @ dq @ ''.''))
      else Inr field)"

definition splitFieldReference :: "string \<Rightarrow> string option \<times> string" where
  "splitFieldReference field =
     (if \<not> includes_char field CHR ''.'' then (None, field)
      else (Some (takeWhile (\<lambda>c. c \<noteq> CHR ''.'') field),
            tl (dropWhile (\<lambda>c. c \<noteq> CHR ''.'') field)))"

definition is_space :: "char \<Rightarrow> bool" where
  "is_space c = (c \<in> set [CHR '' '', CHR 0x09, CHR 0x0A, CHR 0x0B, CHR 0x0C, CHR 0x0D])"

definition truthy_str :: "string option \<Rightarrow> string option" where
  "truthy_str s = (case s of None \<Rightarrow> None | Some t \<Rightarrow> if t = [] then None else Some t)"

definition resolvePredicateColumn :: "query_builder \<Rightarrow> string option \<Rightarrow> string \<Rightarrow> string" where
  "resolvePredicateColumn qb tableReference column =
     (if column = ''*'' \<or> list_ex (\<lambda>c. c = CHR ''('' \<or> c = CHR '')'' \<or> is_space c) column
      then column
      else
        let tn = tableName (modelClass qb);
            ns = schemaNamespace qb;
            unprefixedTableName =
              (if ns \<noteq> [] \<and> startsWith tn ns then drop (length ns) tn else tn);
            isBaseTable =
              (case truthy_str tableReference of
                 None \<Rightarrow> True
               | Some t \<Rightarrow> t = tn \<or> t = unprefixedTableName)
        in if isBaseTable then resolveFieldName qb column else column)"

definition createPredicate ::
  "query_builder \<Rightarrow> string \<Rightarrow> string \<Rightarrow> jsval \<Rightarrow> pred_options \<Rightarrow> predicate" where
  "createPredicate qb field operator v options =
     (let (explicitTable, column) = splitFieldReference field;
          tableReference =
            (case truthy_str (opt_table options) of
               Some t \<Rightarrow> Some t
             | None \<Rightarrow> truthy_str explicitTable);
          resolvedColumn = resolvePredicateColumn qb tableReference column;
          storedValue = (case opt_serializeValue options of None \<Rightarrow> v | Some f \<Rightarrow> f v)
      in if (operator = ''IS'' \<or> operator = ''IS NOT'') \<and> storedValue = JNull then
           Basic tableReference resolvedColumn operator JNull None
         else if storedValue \<noteq> JUndefined then
           Basic tableReference resolvedColumn operator storedValue
             (Some (case opt_valueTransform options of
                      Some t \<Rightarrow> t
                    | None \<Rightarrow>
                        (case truthy_str (opt_cast options) of
                           Some c \<Rightarrow> Cast c
                         | None \<Rightarrow> Identity)))
         else Basic tableReference resolvedColumn operator JUndefined None)"

definition addWhereCondition ::
  "query_builder \<Rightarrow> string \<Rightarrow> string \<Rightarrow> jsval \<Rightarrow> pred_options \<Rightarrow> predicate \<times> query_builder"
  where
  "addWhereCondition qb field operator v options =
     (let effectiveOperator =
            (if v = JNull then
               (if operator = ''='' then ''IS''
                else if operator = ''!='' then ''IS NOT'' else operator)
             else operator);
          predicate = createPredicate qb field effectiveOperator v options
      in (predicate, qb\<lparr>qb_where := qb_where qb @ [predicate]\<rparr>))"

definition whereIn :: "query_builder \<Rightarrow> string \<Rightarrow> jsval list \<Rightarrow> string option \<Rightarrow> query_builder" where
  "whereIn qb field vals cast =
     (if vals = [] then qb
      else snd (addWhereCondition qb field ''= ANY'' (JArr vals)
                  (no_options\<lparr>opt_valueTransform := Some (Parenthesized cast)\<rparr>)))"

definition limit :: "query_builder \<Rightarrow> int \<Rightarrow> query_builder" where
  "limit qb n = qb\<lparr>qb_limit := Some n\<rparr>"

definition offset :: "query_builder \<Rightarrow> int \<Rightarrow> query_builder" where
  "offset qb n = qb\<lparr>qb_offset := Some n\<rparr>"

definition includeSensitive :: "query_builder \<Rightarrow> string list \<Rightarrow> query_builder" where
  "includeSensitive qb names = qb\<lparr>qb_includeSensitive := names\<rparr>"

section \<open>Predicate-literal facade: the operator bag\<close>

text \<open>
  An operator descriptor (\<open>InternalFilterOperator\<close>): the value and the \<open>build\<close> closure,
  which receives the builder, the resolved column and the \<open>mutate\<close> flag and returns the
  predicate (or \<open>null\<close>) together with the builder as it left it.
\<close>

record filter_operator =
  op_value :: jsval
  op_build :: "query_builder \<Rightarrow> string \<Rightarrow> bool \<Rightarrow> predicate option \<times> query_builder"

text \<open>
  The body shared by the \<open>build\<close> closures:
  \<open>mutate ? builder._addWhereCondition(...) : builder._createPredicate(...)\<close>.
\<close>

definition build_with ::
  "string \<Rightarrow> jsval \<Rightarrow> pred_options \<Rightarrow> query_builder \<Rightarrow> string \<Rightarrow> bool
     \<Rightarrow> predicate option \<times> query_builder" where
  "build_with operator v options qb field mutate =
     (if mutate then
        (let (p, qb') = addWhereCondition qb field operator v options in (Some p, qb'))
      else (Some (createPredicate qb field operator v options), qb))"

datatype string_or_array = OneString string | StringArray "string list"

fun normalizeArrayValue :: "string_or_array \<Rightarrow> string list" where
  "normalizeArrayValue (OneString s) = [s]"
| "normalizeArrayValue (StringArray xs) = xs"

definition normalizeNonEmptyArrayValue :: "jsval list \<Rightarrow> js_error + jsval list" where
  "normalizeNonEmptyArrayValue v =
     (if length v = 0 then Inl (TypeError ''FilterWhere ops.in requires at least one value.'')
      else Inr v)"

definition ops_neq :: "jsval \<Rightarrow> filter_operator" where
  "ops_neq v = \<lparr>op_value = v, op_build = build_with ''!='' v no_options\<rparr>"

definition ops_containsAll :: "string_or_array \<Rightarrow> filter_operator" where
  "ops_containsAll v =
     (let normalized = normalizeArrayValue v in
      \<lparr>op_value = JArr (map JStr normalized),
       op_build = (\<lambda>qb field mutate.
         if length normalized = 0 then (None, qb)
         else build_with ''@>'' (JArr (map JStr normalized))
                (no_options\<lparr>opt_cast := Some ''text[]''\<rparr>) qb field mutate)\<rparr>)"

definition ops_containsAny :: "string_or_array \<Rightarrow> filter_operator" where
  "ops_containsAny v =
     (let normalized = normalizeArrayValue v in
      \<lparr>op_value = JArr (map JStr normalized),
       op_build = (\<lambda>qb field mutate.
         if length normalized = 0 then (None, qb)
         else build_with ''&&'' (JArr (map JStr normalized))
                (no_options\<lparr>opt_cast := Some ''text[]''\<rparr>) qb field mutate)\<rparr>)"

definition ops_in :: "jsval list \<Rightarrow> string option \<Rightarrow> js_error + filter_operator" where
  "ops_in vals cast =
     (case normalizeNonEmptyArrayValue vals of
        Inl e \<Rightarrow> Inl e
      | Inr normalized \<Rightarrow>
          Inr \<lparr>op_value = JArr normalized,
               op_build = build_with ''= ANY'' (JArr normalized)
                 (no_options\<lparr>opt_valueTransform := Some (Parenthesized cast)\<rparr>)\<rparr>)"

definition ops_notIn :: "jsval list \<Rightarrow> string option \<Rightarrow> js_error + filter_operator" where
  "ops_notIn vals cast =
     (case normalizeNonEmptyArrayValue vals of
        Inl e \<Rightarrow> Inl e
      | Inr normalized \<Rightarrow>
          Inr \<lparr>op_value = JArr normalized,
               op_build = build_with ''!= ALL'' (JArr normalized)
                 (no_options\<lparr>opt_valueTransform := Some (Parenthesized cast)\<rparr>)\<rparr>)"

section \<open>Predicate-literal facade: \<open>FilterWhereBuilder\<close>\<close>

record filter_where_builder =
  fwb_builder :: query_builder
  fwb_hasRevisions :: bool
  fwb_includeDeleted :: bool
  fwb_includeStale :: bool
  fwb_revisionFiltersApplied :: bool

definition new_FilterWhereBuilder :: "query_builder \<Rightarrow> bool \<Rightarrow> filter_where_builder" where
  "new_FilterWhereBuilder qb hasRev =
     \<lparr>fwb_builder = qb, fwb_hasRevisions = hasRev, fwb_includeDeleted = False,
      fwb_includeStale = False, fwb_revisionFiltersApplied = False\<rparr>"

definition ensureRevisionFilters :: "filter_where_builder \<Rightarrow> filter_where_builder" where
  "ensureRevisionFilters fw =
     (if fwb_revisionFiltersApplied fw then fw
      else
        let fw1 = fw\<lparr>fwb_revisionFiltersApplied := True\<rparr> in
        if \<not> fwb_hasRevisions fw1 then fw1
        else
          let b0 = fwb_builder fw1;
              b1 = (if \<not> fwb_includeStale fw1
                    then snd (addWhereCondition b0 ''_old_rev_of'' ''IS'' JNull no_options)
                    else b0);
              b2 = (if \<not> fwb_includeDeleted fw1
                    then snd (addWhereCondition b1 ''_rev_deleted'' ''='' (JBool False) no_options)
                    else b1)
          in fw1\<lparr>fwb_builder := b2\<rparr>)"

text \<open>An entry of a predicate literal: a plain value or an operator descriptor.\<close>

datatype literal_value = Plain jsval | Operator filter_operator

definition createFieldPredicate ::
  "filter_where_builder \<Rightarrow> string \<Rightarrow> literal_value \<Rightarrow> bool
     \<Rightarrow> js_error + (predicate option \<times> filter_where_builder)" where
  "createFieldPredicate fw field v mutate =
     (if (case v of Plain pv \<Rightarrow> pv = JUndefined | Operator _ \<Rightarrow> False) then Inr (None, fw)
      else
        let dbField = resolveFieldName (fwb_builder fw) field in
        case assertResolvedField (fwb_builder fw) dbField of
          Inl e \<Rightarrow> Inl e
        | Inr _ \<Rightarrow>
            (case v of
               Operator operator \<Rightarrow>
                 (let (p, b) = op_build operator (fwb_builder fw) dbField mutate
                  in Inr (p, fw\<lparr>fwb_builder := b\<rparr>))
             | Plain pv \<Rightarrow>
                 (let (p, b) = build_with ''='' pv no_options (fwb_builder fw) dbField mutate
                  in Inr (p, fw\<lparr>fwb_builder := b\<rparr>))))"

text \<open>The two loops of \<open>_applyLiteral\<close>: the OR branch collects detached predicates.\<close>

fun applyLiteral_each ::
  "filter_where_builder \<Rightarrow> (string \<times> literal_value) list \<Rightarrow> bool
     \<Rightarrow> js_error + filter_where_builder" where
  "applyLiteral_each fw [] mutate = Inr fw"
| "applyLiteral_each fw ((key, rawValue) # rest) mutate =
     (case createFieldPredicate fw key rawValue mutate of
        Inl e \<Rightarrow> Inl e
      | Inr (_, fw') \<Rightarrow> applyLiteral_each fw' rest mutate)"

fun applyLiteral_collect ::
  "filter_where_builder \<Rightarrow> (string \<times> literal_value) list \<Rightarrow> predicate list
     \<Rightarrow> js_error + (predicate list \<times> filter_where_builder)" where
  "applyLiteral_collect fw [] predicates = Inr (predicates, fw)"
| "applyLiteral_collect fw ((key, rawValue) # rest) predicates =
     (case createFieldPredicate fw key rawValue False of
        Inl e \<Rightarrow> Inl e
      | Inr (None, fw') \<Rightarrow> applyLiteral_collect fw' rest predicates
      | Inr (Some p, fw') \<Rightarrow> applyLiteral_collect fw' rest (predicates @ [p]))"

definition applyLiteral ::
  "filter_where_builder \<Rightarrow> (string \<times> literal_value) list \<Rightarrow> bool \<Rightarrow> conjunction
     \<Rightarrow> js_error + filter_where_builder" where
  "applyLiteral fw literal mutate cj =
     (if cj = OR then
        (case applyLiteral_collect fw literal [] of
           Inl e \<Rightarrow> Inl e
         | Inr (predicates, fw') \<Rightarrow>
             if length predicates > 0 then
               Inr (fw'\<lparr>fwb_builder :=
                      (fwb_builder fw')\<lparr>qb_where :=
                         qb_where (fwb_builder fw') @ [Group OR predicates]\<rparr>\<rparr>)
             else Inr fw')
      else applyLiteral_each fw literal mutate)"

definition fw_and ::
  "filter_where_builder \<Rightarrow> (string \<times> literal_value) list \<Rightarrow> js_error + filter_where_builder"
  where
  "fw_and fw literal = applyLiteral fw literal True AND"

definition fw_or ::
  "filter_where_builder \<Rightarrow> (string \<times> literal_value) list \<Rightarrow> js_error + filter_where_builder"
  where
  "fw_or fw literal = applyLiteral fw literal False OR"

definition includeDeleted :: "filter_where_builder \<Rightarrow> filter_where_builder" where
  "includeDeleted fw = fw\<lparr>fwb_includeDeleted := True\<rparr>"

definition includeStale :: "filter_where_builder \<Rightarrow> filter_where_builder" where
  "includeStale fw = fw\<lparr>fwb_includeStale := True\<rparr>"

definition fw_includeSensitive :: "filter_where_builder \<Rightarrow> string list \<Rightarrow> filter_where_builder"
  where
  "fw_includeSensitive fw names = fw\<lparr>fwb_builder := includeSensitive (fwb_builder fw) names\<rparr>"

definition fw_limit :: "filter_where_builder \<Rightarrow> int \<Rightarrow> filter_where_builder" where
  "fw_limit fw n = fw\<lparr>fwb_builder := limit (fwb_builder fw) n\<rparr>"

definition fw_offset :: "filter_where_builder \<Rightarrow> int \<Rightarrow> filter_where_builder" where
  "fw_offset fw n = fw\<lparr>fwb_builder := offset (fwb_builder fw) n\<rparr>"

definition fw_whereIn ::
  "filter_where_builder \<Rightarrow> string \<Rightarrow> jsval list \<Rightarrow> string option
     \<Rightarrow> js_error + filter_where_builder" where
  "fw_whereIn fw field vals cast =
     (let dbField = resolveFieldName (fwb_builder fw) field in
      case assertResolvedField (fwb_builder fw) dbField of
        Inl e \<Rightarrow> Inl e
      | Inr _ \<Rightarrow> Inr (fw\<lparr>fwb_builder := whereIn (fwb_builder fw) dbField vals cast\<rparr>))"

text \<open>
  \<open>createFilterWhereMethod(hasRevisions)\<close>: a fresh builder for the model, wrapped, with the
  literal applied through \<open>and\<close>.
\<close>

definition filterWhere ::
  "model_class \<Rightarrow> string \<Rightarrow> (string \<times> model_class) list \<Rightarrow> bool
     \<Rightarrow> (string \<times> literal_value) list \<Rightarrow> js_error + filter_where_builder" where
  "filterWhere mc ns reg hasRev literal =
     fw_and (new_FilterWhereBuilder (new_QueryBuilder mc ns reg) hasRev) literal"

section \<open>Query builder: rendering the WHERE clause\<close>

definition qualifyColumn :: "string \<Rightarrow> bool \<Rightarrow> string option \<Rightarrow> string \<Rightarrow> string" where
  "qualifyColumn defaultTable qualifyColumns table column =
     (if column = [] then column
      else case truthy_str table of
        Some t \<Rightarrow> t @ ''.'' @ column
      | None \<Rightarrow>
          if \<not> qualifyColumns then column
          else if includes_char column CHR ''.'' \<or> includes_char column CHR ''('' then column
          else defaultTable @ ''.'' @ column)"

fun conjunction_word :: "conjunction \<Rightarrow> string" where
  "conjunction_word AND = ''AND''"
| "conjunction_word OR = ''OR''"

text \<open>
  \<open>_renderPredicate\<close> and \<open>_renderBasicPredicate\<close>. The rendering context is threaded as a
  pair: the index of the next placeholder and the parameters pushed so far. A raw predicate
  with an empty \<open>sql\<close> falls through to the basic renderer, which then prints its missing
  column and operator.
\<close>

fun renderPredicate ::
      "string \<Rightarrow> bool \<Rightarrow> predicate \<Rightarrow> nat \<times> jsval list \<Rightarrow> string \<times> (nat \<times> jsval list)"
  and renderPredicates ::
      "string \<Rightarrow> bool \<Rightarrow> predicate list \<Rightarrow> nat \<times> jsval list
         \<Rightarrow> string list \<times> (nat \<times> jsval list)"
  where
  "renderPredicate dt q (Group cj children) ctx =
     (let (inner, ctx') = renderPredicates dt q children ctx in
      if inner = [] then ([], ctx')
      else (''('' @ join ('' '' @ conjunction_word cj @ '' '') inner @ '')'', ctx'))"
| "renderPredicate dt q (Raw sql vals) ctx =
     (if sql \<noteq> [] then (sql, (fst ctx, snd ctx @ vals))
      else (''undefined undefined'', ctx))"
| "renderPredicate dt q (Basic table column operator v transform) ctx =
     (let columnSql = qualifyColumn dt q table column in
      if (operator = ''IS'' \<or> operator = ''IS NOT'') \<and> v = JNull then
        (columnSql @ '' '' @ operator @ '' NULL'', ctx)
      else if v = JUndefined then (columnSql @ '' '' @ operator, ctx)
      else
        let placeholder = ''$'' @ show_nat (fst ctx);
            valueSql = (case transform of None \<Rightarrow> placeholder
                        | Some t \<Rightarrow> apply_transform t placeholder)
        in (columnSql @ '' '' @ operator @ '' '' @ valueSql, (Suc (fst ctx), snd ctx @ [v])))"
| "renderPredicates dt q [] ctx = ([], ctx)"
| "renderPredicates dt q (p # ps) ctx =
     (let (fragment, ctx') = renderPredicate dt q p ctx;
          (others, ctx'') = renderPredicates dt q ps ctx'
      in ((if fragment \<noteq> [] then [fragment] else []) @ others, ctx''))"

definition buildWhereClause :: "query_builder \<Rightarrow> bool \<Rightarrow> string \<times> jsval list" where
  "buildWhereClause qb qualifyColumns =
     (if length (qb_where qb) = 0 then ([], [])
      else
        let (fragments, ctx) =
              renderPredicates (tableName (modelClass qb)) qualifyColumns (qb_where qb) (1, [])
        in (join '' AND '' fragments, snd ctx))"

section \<open>Query builder: joins\<close>

definition getTableName :: "query_builder \<Rightarrow> string \<Rightarrow> string" where
  "getTableName qb baseName = schemaNamespace qb @ baseName"

definition resolveTableReference :: "query_builder \<Rightarrow> string \<Rightarrow> string option" where
  "resolveTableReference qb tableRef =
     (if tableRef = [] then None
      else if includes_char tableRef CHR ''.'' then Some tableRef
      else Some (getTableName qb tableRef))"

definition or_default :: "string \<Rightarrow> string \<Rightarrow> string" where
  "or_default s d = (if s = [] then d else s)"

text \<open>
  \<open>_getJoinInfo\<close>, on the normalised relation configuration (the historical alias keys of a
  raw configuration are resolved by \<open>_normalizeRelationConfig\<close> before it is stored).
\<close>

definition getJoinInfo :: "query_builder \<Rightarrow> string \<Rightarrow> join_info option" where
  "getJoinInfo qb relationName =
     (case getRelation (modelClass qb) relationName of
        None \<Rightarrow> None
      | Some relationConfig \<Rightarrow>
          let baseTargetTable = rel_targetTable relationConfig in
          (case truthy_str (resolveTableReference qb baseTargetTable) of
             None \<Rightarrow> None
           | Some targetTableName \<Rightarrow>
               let hasRev = rel_hasRevisions relationConfig;
                   sourceCol = or_default (rel_sourceColumn relationConfig) ''id'';
                   targetCol = or_default (rel_targetColumn relationConfig) ''id'';
                   card = rel_cardinality relationConfig;
                   targetKey = or_default (rel_targetModelKey relationConfig) baseTargetTable;
                   tn = tableName (modelClass qb)
               in (case rel_through relationConfig of
                     Some th \<Rightarrow>
                       (case truthy_str (resolveTableReference qb (th_table th)) of
                          None \<Rightarrow> None
                        | Some joinTableName \<Rightarrow>
                            let throughSourceKey = th_sourceColumn th;
                                throughTargetKey = th_targetColumn th
                            in if throughSourceKey = [] \<or> throughTargetKey = [] then None
                               else
                                 let joinTableOn =
                                       (case truthy_str (th_sourceCondition th) of
                                          Some c \<Rightarrow> c
                                        | None \<Rightarrow> tn @ ''.'' @ sourceCol @ '' = '' @ joinTableName
                                                    @ ''.'' @ throughSourceKey);
                                     targetCondition =
                                       (case truthy_str (rel_condition relationConfig) of
                                          Some c \<Rightarrow> c
                                        | None \<Rightarrow>
                                            (case truthy_str (th_targetCondition th) of
                                               Some c \<Rightarrow> c
                                             | None \<Rightarrow> joinTableName @ ''.'' @ throughTargetKey
                                                 @ '' = '' @ targetTableName @ ''.'' @ targetCol))
                                 in Some \<lparr>ji_type = Through, ji_table = targetTableName,
                                      ji_baseTable = baseTargetTable, ji_hasRevisions = hasRev,
                                      ji_condition = targetCondition, ji_sourceColumn = sourceCol,
                                      ji_targetColumn = targetCol, ji_cardinality = card,
                                      ji_isArray = (card \<noteq> One), ji_targetModelKey = targetKey,
                                      ji_joinTable = Some joinTableName,
                                      ji_joinTableOn = Some joinTableOn,
                                      ji_joinTableSourceColumn = Some throughSourceKey,
                                      ji_joinTableTargetColumn = Some throughTargetKey\<rparr>)
                   | None \<Rightarrow>
                       let directCondition =
                             (case truthy_str (rel_condition relationConfig) of
                                Some c \<Rightarrow> c
                              | None \<Rightarrow> tn @ ''.'' @ sourceCol @ '' = '' @ targetTableName
                                          @ ''.'' @ targetCol)
                       in Some \<lparr>ji_type = Direct, ji_table = targetTableName,
                            ji_baseTable = baseTargetTable, ji_hasRevisions = hasRev,
                            ji_condition = directCondition, ji_sourceColumn = sourceCol,
                            ji_targetColumn = targetCol, ji_cardinality = card,
                            ji_isArray = (card \<noteq> One), ji_targetModelKey = targetKey,
                            ji_joinTable = None, ji_joinTableOn = None,
                            ji_joinTableSourceColumn = None,
                            ji_joinTableTargetColumn = None\<rparr>)))"

definition revisionJoinGuard :: "string \<Rightarrow> string" where
  "revisionJoinGuard t =
     '' AND '' @ t @ ''._old_rev_of IS NULL AND ('' @ t @ ''._rev_deleted IS NULL OR '' @ t
       @ ''._rev_deleted = false)''"

text \<open>An unknown relation only logs a warning: the builder is returned as it was.\<close>

definition addSimpleJoin :: "query_builder \<Rightarrow> string \<Rightarrow> query_builder" where
  "addSimpleJoin qb relationName =
     (case getJoinInfo qb relationName of
        None \<Rightarrow> qb
      | Some joinInfo \<Rightarrow>
          let guard = (if ji_hasRevisions joinInfo then revisionJoinGuard (ji_table joinInfo)
                       else []);
              targetJoin = ''LEFT JOIN '' @ ji_table joinInfo @ '' ON '' @ ji_condition joinInfo
                           @ guard;
              newJoins =
                (case (truthy_str (ji_joinTable joinInfo), truthy_str (ji_joinTableOn joinInfo)) of
                   (Some jt, Some jton) \<Rightarrow> [''LEFT JOIN '' @ jt @ '' ON '' @ jton, targetJoin]
                 | _ \<Rightarrow> [targetJoin])
          in qb\<lparr>qb_joins := qb_joins qb @ newJoins,
                qb_simpleJoins :=
                  (if relationName \<in> set (map fst (qb_simpleJoins qb))
                   then map (\<lambda>e. if fst e = relationName then (relationName, joinInfo) else e)
                          (qb_simpleJoins qb)
                   else qb_simpleJoins qb @ [(relationName, joinInfo)])\<rparr>)"

definition addComplexJoin ::
  "query_builder \<Rightarrow> string \<Rightarrow> join_apply_analysis option \<Rightarrow> query_builder" where
  "addComplexJoin qb relationName analysis =
     (case getJoinInfo qb relationName of
        None \<Rightarrow> qb
      | Some joinInfo \<Rightarrow>
          let spec = \<lparr>cj_joinInfo = joinInfo, cj_analysis = analysis\<rparr> in
          qb\<lparr>qb_complexJoins :=
               (if relationName \<in> set (map fst (qb_complexJoins qb))
                then map (\<lambda>e. if fst e = relationName then (relationName, spec) else e)
                       (qb_complexJoins qb)
                else qb_complexJoins qb @ [(relationName, spec)])\<rparr>)"

text \<open>
  A relation's entry in a join specification: \<open>true\<close>, a configuration object (given by
  the analysis of its \<open>_apply\<close> callback, \<open>None\<close> for an object without one), or any other
  value.
\<close>

datatype join_relation_options = JoinTrue | JoinConfig "join_apply_analysis option" | JoinOther

definition processJoin :: "query_builder \<Rightarrow> string \<Rightarrow> join_relation_options \<Rightarrow> query_builder"
  where
  "processJoin qb relationName relationSpec =
     (case relationSpec of
        JoinTrue \<Rightarrow>
          (case getJoinInfo qb relationName of
             Some joinInfo \<Rightarrow>
               if ji_cardinality joinInfo = Many then addComplexJoin qb relationName None
               else addSimpleJoin qb relationName
           | None \<Rightarrow> addSimpleJoin qb relationName)
      | JoinConfig analysis \<Rightarrow> addComplexJoin qb relationName analysis
      | JoinOther \<Rightarrow> qb)"

definition getJoin :: "query_builder \<Rightarrow> (string \<times> join_relation_options) list \<Rightarrow> query_builder"
  where
  "getJoin qb joinSpec = fold (\<lambda>e acc. processJoin acc (fst e) (snd e)) joinSpec qb"

text \<open>
  \<open>_getRelatedModel\<close>: the registry is asked for the target model key, the base table, the
  table and the relation name, in this order; the first registered model wins.
\<close>

definition getRelatedModel :: "query_builder \<Rightarrow> string \<Rightarrow> join_info \<Rightarrow> model_class option" where
  "getRelatedModel qb relationName joinInfo =
     (case filter (\<lambda>i. i \<noteq> [] \<and> map_of (registry qb) i \<noteq> None)
             [ji_targetModelKey joinInfo, ji_baseTable joinInfo, ji_table joinInfo, relationName]
      of [] \<Rightarrow> None
       | i # _ \<Rightarrow> map_of (registry qb) i)"

section \<open>Query builder: SELECT statements\<close>

definition is_word_char :: "char \<Rightarrow> bool" where
  "is_word_char c =
     (let n = of_char c :: nat in
      (48 \<le> n \<and> n \<le> 57) \<or> (65 \<le> n \<and> n \<le> 90) \<or> (97 \<le> n \<and> n \<le> 122) \<or> n = 95)"

text \<open>
  The aliased columns of the inline joins. Reading the safe columns of a relation whose target
  model is not registered is a method call on \<open>null\<close>, which throws.
\<close>

fun joinSelects :: "query_builder \<Rightarrow> (string \<times> join_info) list \<Rightarrow> js_error + string list" where
  "joinSelects qb [] = Inr []"
| "joinSelects qb ((relationName, joinInfo) # rest) =
     (if ji_table joinInfo = [] then joinSelects qb rest
      else case getRelatedModel qb relationName joinInfo of
        None \<Rightarrow> Inl (TypeError ''Cannot read properties of null (reading getSafeColumnNames)'')
      | Some relatedModel \<Rightarrow>
          (case joinSelects qb rest of
             Inl e \<Rightarrow> Inl e
           | Inr others \<Rightarrow>
               Inr (map (\<lambda>col. ji_table joinInfo @ ''.'' @ col @ '' AS '' @ dq @ relationName
                                @ ''_'' @ col @ dq)
                      (getSafeColumnNames relatedModel) @ others)))"

definition qualifyOrderBy :: "string \<Rightarrow> string \<Rightarrow> string" where
  "qualifyOrderBy tn orderClause =
     (if includes_char orderClause CHR ''.'' \<or> includes_char orderClause CHR ''('' then orderClause
      else if orderClause \<noteq> [] \<and> is_word_char (hd orderClause) then tn @ ''.'' @ orderClause
      else orderClause)"

definition buildSelectQuery :: "query_builder \<Rightarrow> js_error + (string \<times> jsval list)" where
  "buildSelectQuery qb =
     (let tn = tableName (modelClass qb);
          mainTableColumns =
            map (\<lambda>col. tn @ ''.'' @ col) (getColumnNames (modelClass qb) (qb_includeSensitive qb));
          selectClauseE =
            (if ''*'' \<in> set (qb_select qb) then
               (if length (qb_joins qb) > 0 then
                  (case joinSelects qb (qb_simpleJoins qb) of
                     Inl e \<Rightarrow> Inl e
                   | Inr js \<Rightarrow>
                       Inr (join '', '' mainTableColumns
                            @ (if length js > 0 then '', '' @ join '', '' js else [])))
                else Inr (join '', '' mainTableColumns))
             else Inr (join '', '' (qb_select qb)))
      in case selectClauseE of
        Inl e \<Rightarrow> Inl e
      | Inr selectClause \<Rightarrow>
          let (whereSql, params) = buildWhereClause qb True in
          Inr (''SELECT '' @ selectClause @ '' FROM '' @ tn
               @ (if length (qb_joins qb) > 0 then '' '' @ join '' '' (qb_joins qb) else [])
               @ (if whereSql \<noteq> [] then '' WHERE '' @ whereSql else [])
               @ (if length (qb_orderBy qb) > 0
                  then '' ORDER BY '' @ join '', '' (map (qualifyOrderBy tn) (qb_orderBy qb))
                  else [])
               @ (case qb_limit qb of None \<Rightarrow> [] | Some n \<Rightarrow> '' LIMIT '' @ show_int n)
               @ (case qb_offset qb of None \<Rightarrow> [] | Some n \<Rightarrow> '' OFFSET '' @ show_int n),
               params))"

section \<open>Model instances\<close>

text \<open>
  The per-row state of a \<open>Model\<close>: \<open>_data\<close>, the virtual-field side map, the set of changed
  storage columns (in insertion order, which is the order of the SET clause), \<open>_isNew\<close> and
  the load-time snapshot \<open>_originalData\<close>. \<open>inst_props\<close> holds properties assigned on the
  instance under a name that is not a schema field (no accessor is installed for those, so
  they never reach \<open>_data\<close>).
\<close>

record model_instance =
  inst_data :: jsobject
  inst_virtualFields :: jsobject
  inst_changed :: "string list"
  inst_isNew :: bool
  inst_originalData :: jsobject
  inst_props :: jsobject

definition set_add :: "string \<Rightarrow> string list \<Rightarrow> string list" where
  "set_add x xs = (if x \<in> set xs then xs else xs @ [x])"

definition getValue :: "model_class \<Rightarrow> model_instance \<Rightarrow> string \<Rightarrow> jsval" where
  "getValue mc inst key =
     (if obj_has (inst_virtualFields inst) key then obj_get (inst_virtualFields inst) key
      else obj_get (inst_data inst) (getDbFieldName mc key))"

definition setValue :: "model_class \<Rightarrow> model_instance \<Rightarrow> string \<Rightarrow> jsval \<Rightarrow> model_instance" where
  "setValue mc inst key v =
     (case map_of (schema mc) key of
        Some fieldDef \<Rightarrow>
          if isVirtual fieldDef then
            inst\<lparr>inst_virtualFields := obj_set key v (inst_virtualFields inst)\<rparr>
          else
            inst\<lparr>inst_data := obj_set (getDbFieldName mc key) v (inst_data inst),
                 inst_changed := set_add (getDbFieldName mc key) (inst_changed inst)\<rparr>
      | None \<Rightarrow>
          inst\<lparr>inst_data := obj_set (getDbFieldName mc key) v (inst_data inst),
               inst_changed := set_add (getDbFieldName mc key) (inst_changed inst)\<rparr>)"


definition get_id :: "model_class \<Rightarrow> model_instance \<Rightarrow> jsval" where
  "get_id mc inst =
     (if ''id'' \<in> set (map fst (schema mc)) then getValue mc inst ''id''
      else case obj_get (inst_data inst) ''id'' of JStr s \<Rightarrow> JStr s | _ \<Rightarrow> JUndefined)"

definition resolveDefault :: "field_def \<Rightarrow> jsval" where
  "resolveDefault fieldDef = (if \<not> hasDefault fieldDef then JUndefined else defaultValue fieldDef)"

definition applyDefaults :: "model_class \<Rightarrow> model_instance \<Rightarrow> jsobject \<Rightarrow> model_instance" where
  "applyDefaults mc inst initialData =
     fold (\<lambda>entry acc.
             let fieldName = fst entry; fieldDef = snd entry in
             if isVirtual fieldDef \<or> \<not> hasDefault fieldDef then acc
             else
               let dbFieldName = getDbFieldName mc fieldName;
                   hasInitialValue =
                     (obj_has initialData fieldName
                      \<or> (dbFieldName \<noteq> fieldName \<and> obj_has initialData dbFieldName))
               in if hasInitialValue then acc
                  else if resolveDefault fieldDef \<noteq> JUndefined
                  then setValue mc acc fieldName (resolveDefault fieldDef)
                  else acc)
          (schema mc) inst"

definition generateVirtualValues :: "model_class \<Rightarrow> model_instance \<Rightarrow> model_instance" where
  "generateVirtualValues mc inst =
     fold (\<lambda>entry acc.
             let fieldName = fst entry; fieldDef = snd entry in
             if isVirtual fieldDef \<and> hasDefault fieldDef \<and> resolveDefault fieldDef \<noteq> JUndefined
             then acc\<lparr>inst_virtualFields :=
                        obj_set fieldName (resolveDefault fieldDef) (inst_virtualFields acc)\<rparr>
             else acc)
          (schema mc) inst"

definition new_Model :: "model_class \<Rightarrow> jsobject \<Rightarrow> model_instance" where
  "new_Model mc initialData =
     (let inst0 = \<lparr>inst_data = [], inst_virtualFields = [], inst_changed = [], inst_isNew = True,
                    inst_originalData = [], inst_props = []\<rparr>;
          inst1 = applyDefaults mc inst0 initialData;
          inst2 = fold (\<lambda>kv acc. setValue mc acc (fst kv) (snd kv)) initialData inst1
      in generateVirtualValues mc inst2)"

fun is_object :: "jsval \<Rightarrow> bool" where
  "is_object (JArr xs) = True"
| "is_object (JObj kvs) = True"
| "is_object (JDate t) = True"
| "is_object v = False"

text \<open>\<open>deepClone\<close> of an immutable value is the value.\<close>

definition trackOriginalValues :: "model_class \<Rightarrow> model_instance \<Rightarrow> model_instance" where
  "trackOriginalValues mc inst =
     fold (\<lambda>entry acc.
             if \<not> isVirtual (snd entry) then
               let dbFieldName = getDbFieldName mc (fst entry);
                   v = obj_get (inst_data acc) dbFieldName
               in if is_object v
                  then acc\<lparr>inst_originalData := obj_set dbFieldName v (inst_originalData acc)\<rparr>
                  else acc\<lparr>inst_originalData := obj_delete dbFieldName (inst_originalData acc)\<rparr>
             else acc)
          (schema mc) inst"

definition createInstance :: "model_class \<Rightarrow> jsobject \<Rightarrow> model_instance" where
  "createInstance mc row =
     trackOriginalValues mc ((new_Model mc row)\<lparr>inst_isNew := False, inst_changed := []\<rparr>)"

text \<open>
  \<open>_detectInPlaceChanges\<close>. An in-place mutation of a nested value shows as a \<open>_data\<close> entry
  that differs from its snapshot; \<open>deepEqual\<close> is structural equality of the two values.
\<close>

definition detectInPlaceChanges :: "model_class \<Rightarrow> model_instance \<Rightarrow> model_instance" where
  "detectInPlaceChanges mc inst =
     (if inst_isNew inst then inst
      else
        fold (\<lambda>entry acc.
                let fieldName = fst entry in
                if \<not> isVirtual (snd entry) \<and> \<not> startsWith fieldName ''_'' then
                  let originalValue = obj_get (inst_originalData acc) (getDbFieldName mc fieldName)
                  in if originalValue \<noteq> JUndefined \<and> getValue mc acc fieldName \<noteq> originalValue
                     then setValue mc acc fieldName (getValue mc acc fieldName)
                     else acc
                else acc)
             (schema mc) inst)"

text \<open>\<open>_validate\<close>: the first validator that throws ends the loop.\<close>

fun validate_fields ::
  "model_class \<Rightarrow> (string \<times> field_def) list \<Rightarrow> model_instance \<Rightarrow> js_error + model_instance" where
  "validate_fields mc [] inst = Inr inst"
| "validate_fields mc ((fieldName, fieldDef) # rest) inst =
     (if \<not> isVirtual fieldDef then
        (case validate fieldDef (getValue mc inst fieldName) fieldName of
           Inl e \<Rightarrow> Inl e
         | Inr validatedValue \<Rightarrow>
             validate_fields mc rest
               (if validatedValue \<noteq> getValue mc inst fieldName
                then setValue mc inst fieldName validatedValue else inst))
      else validate_fields mc rest inst)"

definition validate_instance :: "model_class \<Rightarrow> model_instance \<Rightarrow> js_error + model_instance" where
  "validate_instance mc inst = validate_fields mc (schema mc) inst"

definition metadataFields :: "string list" where
  "metadataFields =
     [''id'', ''_old_rev_of'', ''_rev_deleted'', ''_rev_id'', ''_rev_of'', ''_rev_date'', ''_rev_tags'']"

definition isValidDbFieldName :: "model_class \<Rightarrow> string \<Rightarrow> bool" where
  "isValidDbFieldName mc dbFieldName =
     (if map_of (schema mc) dbFieldName \<noteq> None then True
      else if dbFieldName \<in> set (map snd (fieldMappings mc)) then True
      else if dbFieldName \<in> set metadataFields then True
      else False)"

definition invalidFieldName :: "model_class \<Rightarrow> string \<Rightarrow> js_error" where
  "invalidFieldName mc field =
     Error (''Invalid field name '' @ sq @ field @ sq @ '' in '' @ tableName mc @ '' model. ''
            @ ''Field is not defined in schema or field mappings.'')"

section \<open>The storage collaborator as a table\<close>

text \<open>
  For the revision engine the storage collaborator is a table: a list of rows, each a map from
  column to value, an absent column reading as SQL NULL. The statements the code issues are
  interpreted by what they say: an INSERT appends a row (an absent \<open>id\<close> is filled with
  a generated identifier), an UPDATE rewrites the rows its WHERE clause selects, a SELECT
  returns the rows for which every predicate is true under SQL's three-valued logic. The
  generator \<open>gen\<close> stands for the column default \<open>gen_random_uuid()\<close>; theorems that need it
  assume only that it never returns an identifier already in the table. Storage failures
  (constraints, connectivity) are outside this table model.
\<close>

type_synonym table = "jsobject list"

definition row_get :: "jsobject \<Rightarrow> string \<Rightarrow> jsval" where
  "row_get r c = (case obj_get r c of JUndefined \<Rightarrow> JNull | v \<Rightarrow> v)"

definition store_value :: "jsval \<Rightarrow> jsval" where
  "store_value v = (if v = JUndefined then JNull else v)"

definition write_columns :: "string list \<Rightarrow> jsval list \<Rightarrow> jsobject \<Rightarrow> jsobject" where
  "write_columns cols vals r =
     fold (\<lambda>kv acc. obj_set (fst kv) (store_value (snd kv)) acc) (zip cols vals) r"

definition storage_insert ::
  "(table \<Rightarrow> string) \<Rightarrow> table \<Rightarrow> string list \<Rightarrow> jsval list \<Rightarrow> table \<times> jsobject" where
  "storage_insert gen tbl cols vals =
     (let given = write_columns cols vals [];
          row = (if obj_has given ''id'' then given else (''id'', JStr (gen tbl)) # given)
      in (tbl @ [row], row))"

definition storage_update_by_id ::
  "table \<Rightarrow> string list \<Rightarrow> jsval list \<Rightarrow> jsval \<Rightarrow> table \<times> jsobject list" where
  "storage_update_by_id tbl cols vals idv =
     (let hit = (\<lambda>r. store_value idv \<noteq> JNull \<and> row_get r ''id'' = store_value idv);
          upd = write_columns cols vals;
          tbl' = map (\<lambda>r. if hit r then upd r else r) tbl
      in (tbl', map upd (filter hit tbl)))"


definition kleene_not :: "bool option \<Rightarrow> bool option" where
  "kleene_not b = map_option Not b"

definition kleene_and :: "bool option \<Rightarrow> bool option \<Rightarrow> bool option" where
  "kleene_and a b =
     (if a = Some False \<or> b = Some False then Some False
      else if a = Some True \<and> b = Some True then Some True else None)"

definition kleene_or :: "bool option \<Rightarrow> bool option \<Rightarrow> bool option" where
  "kleene_or a b =
     (if a = Some True \<or> b = Some True then Some True
      else if a = Some False \<and> b = Some False then Some False else None)"

definition sql_equal :: "jsval \<Rightarrow> jsval \<Rightarrow> bool option" where
  "sql_equal a b = (if a = JNull \<or> b = JNull then None else Some (a = b))"

definition sql_any :: "jsval \<Rightarrow> jsval list \<Rightarrow> bool option" where
  "sql_any a bs = fold (\<lambda>b acc. kleene_or acc (sql_equal a b)) bs (Some False)"

text \<open>
  The truth value of a predicate on a row of the base table. The operators interpreted are the
  ones the revision engine and the membership operators emit; any other operator, and a raw
  fragment, is left unknown, so such a predicate never selects a row here.
\<close>

fun eval_predicate :: "predicate \<Rightarrow> jsobject \<Rightarrow> bool option"
  and eval_predicates :: "conjunction \<Rightarrow> predicate list \<Rightarrow> jsobject \<Rightarrow> bool option"
  where
  "eval_predicate (Basic table column operator v transform) r =
     (if operator = ''IS'' \<and> v = JNull then Some (row_get r column = JNull)
      else if operator = ''IS NOT'' \<and> v = JNull then Some (row_get r column \<noteq> JNull)
      else if v = JUndefined then None
      else if operator = ''='' then sql_equal (row_get r column) v
      else if operator = ''!='' then kleene_not (sql_equal (row_get r column) v)
      else if operator = ''= ANY'' then
        (case v of JArr vs \<Rightarrow> sql_any (row_get r column) vs | _ \<Rightarrow> None)
      else if operator = ''!= ALL'' then
        (case v of JArr vs \<Rightarrow> kleene_not (sql_any (row_get r column) vs) | _ \<Rightarrow> None)
      else None)"
| "eval_predicate (Group cj children) r = eval_predicates cj children r"
| "eval_predicate (Raw sql vals) r = None"
| "eval_predicates cj [] r = (if cj = AND then Some True else Some False)"
| "eval_predicates cj (p # ps) r =
     (if cj = AND then kleene_and (eval_predicate p r) (eval_predicates cj ps r)
      else kleene_or (eval_predicate p r) (eval_predicates cj ps r))"

definition row_matches :: "predicate list \<Rightarrow> jsobject \<Rightarrow> bool" where
  "row_matches preds r = list_all (\<lambda>p. eval_predicate p r = Some True) preds"

definition project_row :: "string list \<Rightarrow> jsobject \<Rightarrow> jsobject" where
  "project_row cols r = fold (\<lambda>c acc. obj_set c (row_get r c) acc) cols []"

definition apply_limit :: "int option \<Rightarrow> 'a list \<Rightarrow> 'a list" where
  "apply_limit l xs = (case l of None \<Rightarrow> xs | Some n \<Rightarrow> take (nat n) xs)"

definition apply_offset :: "int option \<Rightarrow> 'a list \<Rightarrow> 'a list" where
  "apply_offset l xs = (case l of None \<Rightarrow> xs | Some n \<Rightarrow> drop (nat n) xs)"

text \<open>
  The SELECT of a builder without joins: the rows in table order (an ORDER BY is not
  interpreted), filtered, offset, limited and projected on the selected columns.
\<close>

definition storage_select :: "table \<Rightarrow> query_builder \<Rightarrow> jsobject list" where
  "storage_select tbl qb =
     map (project_row (getColumnNames (modelClass qb) (qb_includeSensitive qb)))
       (apply_limit (qb_limit qb) (apply_offset (qb_offset qb)
          (filter (row_matches (qb_where qb)) tbl)))"

section \<open>Model runtime: save\<close>

text \<open>String interpolation of a value (\<open>`${v}`\<close>); dates and plain objects are abbreviated.\<close>

fun js_to_string :: "jsval \<Rightarrow> string" where
  "js_to_string JUndefined = ''undefined''"
| "js_to_string JNull = ''null''"
| "js_to_string (JBool b) = (if b then ''true'' else ''false'')"
| "js_to_string (JNum n) = show_int n"
| "js_to_string JNaN = ''NaN''"
| "js_to_string (JInfinity neg) = (if neg then ''-Infinity'' else ''Infinity'')"
| "js_to_string (JStr s) = s"
| "js_to_string (JDate t) = ''[date '' @ show_int t @ '']''"
| "js_to_string (JArr xs) = join '','' (map js_to_string xs)"
| "js_to_string (JObj kvs) = ''[object Object]''"

text \<open>
  \<open>_insert\<close>: the defined entries of \<open>_data\<close>, in key order, are checked against the
  allow-list and inserted; the returned row is merged into \<open>_data\<close>. The result carries the
  table as the call left it, also when it throws.
\<close>

definition insert_instance ::
  "(table \<Rightarrow> string) \<Rightarrow> model_class \<Rightarrow> model_instance \<Rightarrow> table
     \<Rightarrow> (js_error + model_instance) \<times> table" where
  "insert_instance gen mc inst tbl =
     (let cols = filter (\<lambda>key. obj_get (inst_data inst) key \<noteq> JUndefined)
                   (map fst (inst_data inst))
      in case filter (\<lambda>field. \<not> isValidDbFieldName mc field) cols of
        bad # _ \<Rightarrow> (Inl (invalidFieldName mc bad), tbl)
      | [] \<Rightarrow>
          let (tbl', row) = storage_insert gen tbl cols (map (obj_get (inst_data inst)) cols)
          in (Inr (inst\<lparr>inst_data := obj_assign (inst_data inst) row\<rparr>), tbl'))"

definition dbToSchemaName :: "model_class \<Rightarrow> string \<Rightarrow> string" where
  "dbToSchemaName mc dbFieldName =
     (case map_of (map (\<lambda>e. (snd e, fst e)) (rev (fieldMappings mc))) dbFieldName of
        None \<Rightarrow> dbFieldName
      | Some schemaName \<Rightarrow> if schemaName = [] then dbFieldName else schemaName)"

definition changedFields :: "model_class \<Rightarrow> model_instance \<Rightarrow> string list \<Rightarrow> string list" where
  "changedFields mc inst updateSensitive =
     filter (\<lambda>dbFieldName.
               let schemaFieldName = dbToSchemaName mc dbFieldName in
               if schemaFieldName \<in> set (getSensitiveFieldNames mc)
               then schemaFieldName \<in> set updateSensitive else True)
       (inst_changed inst)"

definition update_instance ::
  "model_class \<Rightarrow> model_instance \<Rightarrow> string list \<Rightarrow> table
     \<Rightarrow> (js_error + model_instance) \<times> table" where
  "update_instance mc inst updateSensitive tbl =
     (if length (inst_changed inst) = 0 then (Inr inst, tbl)
      else
        let changedFields = changedFields mc inst updateSensitive
        in if length changedFields = 0 then (Inr inst, tbl)
           else case filter (\<lambda>field. \<not> isValidDbFieldName mc field) changedFields of
             bad # _ \<Rightarrow> (Inl (invalidFieldName mc bad), tbl)
           | [] \<Rightarrow>
               let (tbl', rows) =
                     storage_update_by_id tbl changedFields
                       (map (obj_get (inst_data inst)) changedFields) (get_id mc inst)
               in (case rows of
                     [] \<Rightarrow> (Inl (DocumentNotFound (tableName mc @ '' with id ''
                                    @ js_to_string (get_id mc inst) @ '' not found'')), tbl')
                   | row # _ \<Rightarrow>
                       (Inr (inst\<lparr>inst_data := obj_assign (inst_data inst) row\<rparr>), tbl')))"

text \<open>
  \<open>save\<close>: everything runs inside one \<open>try\<close>, and whatever is thrown there, by a validator,
  by the allow-list or by the storage, is passed through \<open>convertPostgreSQLError\<close>.
\<close>

definition save ::
  "(table \<Rightarrow> string) \<Rightarrow> model_class \<Rightarrow> model_instance \<Rightarrow> string list \<Rightarrow> table
     \<Rightarrow> (js_error + model_instance) \<times> table" where
  "save gen mc inst updateSensitive tbl =
     (case validate_instance mc (detectInPlaceChanges mc inst) of
        Inl e \<Rightarrow> (Inl (convertPostgreSQLError e), tbl)
      | Inr inst1 \<Rightarrow>
          (case (if inst_isNew inst1 then insert_instance gen mc inst1 tbl
                 else update_instance mc inst1 updateSensitive tbl) of
             (Inl e, tbl') \<Rightarrow> (Inl (convertPostgreSQLError e), tbl')
           | (Inr inst2, tbl') \<Rightarrow>
               (Inr (generateVirtualValues mc
                       (trackOriginalValues mc
                          (inst2\<lparr>inst_isNew := False, inst_changed := []\<rparr>))), tbl')))"

section \<open>Revision engine\<close>

definition BASE_REVISION_FIELD_MAPPINGS :: "(string \<times> string) list" where
  "BASE_REVISION_FIELD_MAPPINGS =
     [(''_revID'', ''_rev_id''), (''_revUser'', ''_rev_user''), (''_revDate'', ''_rev_date''),
      (''_revTags'', ''_rev_tags''), (''_revDeleted'', ''_rev_deleted''),
      (''_oldRevOf'', ''_old_rev_of'')]"





section \<open>Executing a query against the table\<close>

text \<open>
  \<open>run\<close> and \<open>first\<close> for a builder without joins, the only queries the table model
  interprets; a builder that carries joins is answered by a marker error rather than by rows.
\<close>

definition qb_run :: "query_builder \<Rightarrow> table \<Rightarrow> js_error + model_instance list" where
  "qb_run qb tbl =
     (if qb_joins qb \<noteq> [] \<or> qb_complexJoins qb \<noteq> [] then
        Inl (Error ''joined queries are outside the table model'')
      else case buildSelectQuery qb of
        Inl e \<Rightarrow> Inl (convertPostgreSQLError e)
      | Inr _ \<Rightarrow> Inr (map (createInstance (modelClass qb)) (storage_select tbl qb)))"

definition qb_first :: "query_builder \<Rightarrow> table \<Rightarrow> js_error + model_instance option" where
  "qb_first qb tbl =
     (case qb_run (limit qb 1) tbl of
        Inl e \<Rightarrow> Inl e
      | Inr results \<Rightarrow> Inr (case results of [] \<Rightarrow> None | x # _ \<Rightarrow> Some x))"

definition fw_run ::
  "filter_where_builder \<Rightarrow> table \<Rightarrow> (js_error + model_instance list) \<times> filter_where_builder"
  where
  "fw_run fw tbl =
     (let fw' = ensureRevisionFilters fw in (qb_run (fwb_builder fw') tbl, fw'))"

definition fw_first ::
  "filter_where_builder \<Rightarrow> table \<Rightarrow> (js_error + model_instance option) \<times> filter_where_builder"
  where
  "fw_first fw tbl =
     (let fw' = ensureRevisionFilters fw in
      (qb_first (fwb_builder fw') tbl,
       fw'\<lparr>fwb_builder := limit (fwb_builder fw') 1\<rparr>))"

text \<open>
  \<open>getNotStaleOrDeleted(id)\<close> with the default (empty) join options, on a model whose
  \<open>filterWhere\<close> static is installed. \<open>isUUIDv4\<close> is the test of the \<open>is-uuid\<close> package. The
  second component counts the queries sent to the storage.
\<close>

definition getNotStaleOrDeleted ::
  "(string \<Rightarrow> bool) \<Rightarrow> model_class \<Rightarrow> string \<Rightarrow> (string \<times> model_class) list \<Rightarrow> bool
     \<Rightarrow> string \<Rightarrow> table \<Rightarrow> (js_error + model_instance) \<times> nat" where
  "getNotStaleOrDeleted isUUIDv4 mc ns reg hasRev ident tbl =
     (if \<not> isUUIDv4 ident
      then (Inl (InvalidUUIDError (''Invalid '' @ tableName mc @ '' address format'')), 0)
      else case filterWhere mc ns reg hasRev [] of
        Inl e \<Rightarrow> (Inl e, 0)
      | Inr fw0 \<Rightarrow>
          (case fw_whereIn (includeStale (includeDeleted fw0)) ''id'' [JStr ident]
                  (Some ''uuid[]'') of
             Inl e \<Rightarrow> (Inl e, 0)
           | Inr builder \<Rightarrow>
               (case fst (fw_first builder tbl) of
                  Inl e \<Rightarrow> (Inl e, 0)
                | Inr None \<Rightarrow>
                    (Inl (DocumentNotFound (tableName mc @ '' with id '' @ ident
                                            @ '' not found'')), 1)
                | Inr (Some d) \<Rightarrow>
                    if truthy (obj_get (inst_data d) ''_rev_deleted'') then (Inl deletedError, 1)
                    else if truthy (obj_get (inst_data d) ''_old_rev_of'') then (Inl staleError, 1)
                    else (Inr d, 1))))"

section \<open>Query builder: the batched (complex) join query\<close>

definition is_lower_or_digit :: "char \<Rightarrow> bool" where
  "is_lower_or_digit c =
     (let n = of_char c :: nat in (97 \<le> n \<and> n \<le> 122) \<or> (48 \<le> n \<and> n \<le> 57))"

definition is_upper :: "char \<Rightarrow> bool" where
  "is_upper c = (let n = of_char c :: nat in 65 \<le> n \<and> n \<le> 90)"

definition to_lower :: "char \<Rightarrow> char" where
  "to_lower c = (if is_upper c then char_of (of_char c + (32::nat)) else c)"

fun insert_underscores :: "string \<Rightarrow> string" where
  "insert_underscores (a # b # rest) =
     (if is_lower_or_digit a \<and> is_upper b then a # CHR ''_'' # insert_underscores (b # rest)
      else a # insert_underscores (b # rest))"
| "insert_underscores s = s"

definition is_separator :: "char \<Rightarrow> bool" where
  "is_separator c = (is_space c \<or> c = CHR ''-'')"

fun collapse_separators :: "bool \<Rightarrow> string \<Rightarrow> string" where
  "collapse_separators inRun [] = []"
| "collapse_separators inRun (c # rest) =
     (if is_separator c then
        (if inRun then collapse_separators True rest
         else CHR ''_'' # collapse_separators True rest)
      else c # collapse_separators False rest)"

text \<open>
  \<open>_normalizeColumnName\<close>: leading underscores are kept, an underscore is inserted at each
  lower-to-upper boundary, every run of whitespace and hyphens becomes one underscore, and the
  result is lower-cased.
\<close>

fun normalizeColumnName :: "string \<Rightarrow> string" where
  "normalizeColumnName [] = []"
| "normalizeColumnName (c # rest) =
     (if c = CHR ''_'' then CHR ''_'' # normalizeColumnName rest
      else map to_lower (collapse_separators False (insert_underscores (c # rest))))"

fun direction_word :: "sort_direction \<Rightarrow> string" where
  "direction_word ASC = ''ASC''"
| "direction_word DESC = ''DESC''"

definition complexJoinFilterStep ::
  "string \<Rightarrow> join_apply_filter \<Rightarrow> string list \<times> jsval list \<times> nat
     \<Rightarrow> string list \<times> jsval list \<times> nat" where
  "complexJoinFilterStep targetAlias f st =
     (let (clauses, params, paramIndex) = st;
          column = normalizeColumnName (jf_field f)
      in if column = ''_rev_deleted'' \<and> jf_value f = JBool False then
           (clauses @ [''('' @ targetAlias @ ''._rev_deleted IS NULL OR '' @ targetAlias
                       @ ''._rev_deleted = false)''], params, paramIndex)
         else if jf_operator f = Some ''IS NULL'' \<or> jf_value f = JNull then
           (clauses @ [targetAlias @ ''.'' @ column @ '' IS NULL''], params, paramIndex)
         else if jf_operator f = Some ''IS NOT NULL'' then
           (clauses @ [targetAlias @ ''.'' @ column @ '' IS NOT NULL''], params, paramIndex)
         else
           (clauses @ [targetAlias @ ''.'' @ column @ '' ''
                       @ (case truthy_str (jf_operator f) of None \<Rightarrow> ''='' | Some oper \<Rightarrow> oper)
                       @ '' $'' @ show_nat paramIndex],
            params @ [jf_value f], Suc paramIndex))"

text \<open>
  \<open>_buildComplexJoinQuery\<close>. The template's line breaks and indentation are written as
  single spaces; nothing else of the statement is changed.
\<close>

definition buildComplexJoinQuery ::
  "string \<Rightarrow> join_info \<Rightarrow> jsval list \<Rightarrow> join_apply_analysis option
     \<Rightarrow> string \<times> jsval list \<times> string" where
  "buildComplexJoinQuery relationName joinInfo sourceValues analysis =
     (let targetAlias = relationName @ ''_target'';
          throughAlias = relationName @ ''_through'';
          joinSourceAlias = ''_join_source_id'';
          query =
            (if ji_type joinInfo = Through then
               ''SELECT '' @ targetAlias @ ''.*, '' @ throughAlias @ ''.''
               @ orElse (ji_joinTableSourceColumn joinInfo) ''undefined''
               @ '' AS '' @ joinSourceAlias
               @ '' FROM '' @ ji_table joinInfo @ '' '' @ targetAlias
               @ '' JOIN '' @ orElse (ji_joinTable joinInfo) ''undefined'' @ '' '' @ throughAlias
               @ '' ON '' @ throughAlias @ ''.''
               @ orElse (ji_joinTableTargetColumn joinInfo) ''undefined''
               @ '' = '' @ targetAlias @ ''.'' @ ji_targetColumn joinInfo
             else
               ''SELECT '' @ targetAlias @ ''.*, '' @ targetAlias @ ''.'' @ ji_targetColumn joinInfo
               @ '' AS '' @ joinSourceAlias
               @ '' FROM '' @ ji_table joinInfo @ '' '' @ targetAlias);
          firstClause =
            (if ji_type joinInfo = Through then
               throughAlias @ ''.'' @ orElse (ji_joinTableSourceColumn joinInfo) ''undefined''
               @ '' = ANY($1)''
             else targetAlias @ ''.'' @ ji_targetColumn joinInfo @ '' = ANY($1)'');
          revisionClauses =
            (if ji_hasRevisions joinInfo then
               [targetAlias @ ''._old_rev_of IS NULL'',
                ''('' @ targetAlias @ ''._rev_deleted IS NULL OR '' @ targetAlias
                @ ''._rev_deleted = false)'']
             else []);
          (whereClauses, params, paramIndex) =
            fold (complexJoinFilterStep targetAlias)
              (case analysis of None \<Rightarrow> [] | Some a \<Rightarrow> an_filters a)
              (firstClause # revisionClauses, [JArr sourceValues], 2);
          orderClause =
            (case analysis of
               None \<Rightarrow> []
             | Some a \<Rightarrow>
                 (case an_order a of
                    None \<Rightarrow> []
                  | Some (field, direction) \<Rightarrow>
                      '' ORDER BY '' @ targetAlias @ ''.'' @ normalizeColumnName field @ '' ''
                      @ direction_word direction));
          limitClause =
            (case analysis of
               None \<Rightarrow> []
             | Some a \<Rightarrow> (case an_limit a of None \<Rightarrow> [] | Some n \<Rightarrow> '' LIMIT '' @ show_nat n));
          whereClause =
            (if length whereClauses > 0 then '' WHERE '' @ join '' AND '' whereClauses else [])
      in (query @ whereClause @ orderClause @ limitClause, params, joinSourceAlias))"

text \<open>
  The follow-up statement \<open>_processComplexJoin\<close> sends for a registered batched join, given
  the distinct source values collected from the main rows.
\<close>

definition complexJoinStatement ::
  "query_builder \<Rightarrow> string \<Rightarrow> jsval list \<Rightarrow> (string \<times> jsval list) option" where
  "complexJoinStatement qb relationName sourceValues =
     (case map_of (qb_complexJoins qb) relationName of
        None \<Rightarrow> None
      | Some spec \<Rightarrow>
          (case buildComplexJoinQuery relationName (cj_joinInfo spec) sourceValues
                  (cj_analysis spec) of
             (query, params, _) \<Rightarrow> Some (query, params)))"

section \<open>The storage collaborator as a query interface\<close>

text \<open>
  Where a claim is about the statements sent rather than about the rows stored, the storage
  collaborator is its interface \<open>query(text, params)\<close>, which answers with a result or throws.
  Functions that use it return, beside their result, the statements they sent, in order.
\<close>

record query_result =
  qr_rows :: "jsobject list"
  qr_rowCount :: "nat option"

type_synonym dal_query = "string \<Rightarrow> jsval list \<Rightarrow> js_error + query_result"

type_synonym statement = "string \<times> jsval list"

text \<open>
  \<open>remapRowToCamelCase\<close>. \<open>reverseMapping\<close> is the map the function builds from the registered
  mappings, a later mapping of a storage name replacing an earlier one; \<open>camelKey\<close> is the key
  under which a column of the row is stored in the result.
\<close>

definition reverseMapping :: "(string \<times> string) list \<Rightarrow> string \<Rightarrow> string option" where
  "reverseMapping mappings = map_of (map (\<lambda>e. (snd e, fst e)) (rev mappings))"

definition camelKey :: "(string \<times> string) list \<Rightarrow> string \<Rightarrow> string" where
  "camelKey mappings key =
     (case reverseMapping mappings key of None \<Rightarrow> key | Some camel \<Rightarrow> camel)"

definition remapRowToCamelCase :: "jsobject \<Rightarrow> (string \<times> string) list \<Rightarrow> jsobject" where
  "remapRowToCamelCase row mappings =
     (if length mappings = 0 then row
      else fold (\<lambda>kv acc. obj_set (camelKey mappings (fst kv)) (snd kv) acc) row [])"

record increment_result =
  ir_rowCount :: nat
  ir_rows :: "jsobject list"

fun resolveReturning :: "query_builder \<Rightarrow> string list \<Rightarrow> js_error + string list" where
  "resolveReturning qb [] = Inr []"
| "resolveReturning qb (column # rest) =
     (case assertResolvedField qb (resolveFieldName qb column) of
        Inl e \<Rightarrow> Inl e
      | Inr resolved \<Rightarrow>
          (case resolveReturning qb rest of Inl e \<Rightarrow> Inl e | Inr others \<Rightarrow> Inr (resolved # others)))"

fun is_finite_number :: "jsval \<Rightarrow> bool" where
  "is_finite_number (JNum n) = True"
| "is_finite_number v = False"

text \<open>
  The schema entry \<open>increment\<close> checks: the field itself when \<open>field in schema\<close>, otherwise
  the first registered mapping whose storage name is the resolved column or the field as
  given. An inherited name has no schema entry of its own: what \<open>schema[name]\<close> yields for it
  is no number type.
\<close>

definition incrementSchemaFieldName :: "query_builder \<Rightarrow> string \<Rightarrow> string option" where
  "incrementSchemaFieldName qb field =
     (let direct = (if js_in field (map fst (schema (modelClass qb))) then Some field else None)
      in case truthy_str direct of
        Some name \<Rightarrow> Some name
      | None \<Rightarrow>
          truthy_str
            (map_option fst
               (find (\<lambda>e. snd e = resolveFieldName qb field \<or> snd e = field)
                  (fieldMappings (modelClass qb)))))"

definition isNumericSchemaField :: "query_builder \<Rightarrow> string \<Rightarrow> bool" where
  "isNumericSchemaField qb name =
     (case map_of (schema (modelClass qb)) name of
        None \<Rightarrow> False
      | Some columnDef \<Rightarrow> isNumberType columnDef)"

text \<open>
  The part of \<open>QueryBuilder.increment\<close> that runs before the storage is called: every check,
  in the order of the source, and the statement it ends with.
\<close>

definition increment_statement ::
  "query_builder \<Rightarrow> string \<Rightarrow> jsval \<Rightarrow> string list \<Rightarrow> js_error + statement" where
  "increment_statement qb field amount returning =
     (if \<not> is_finite_number amount then
        Inl (TypeError ''QueryBuilder.increment amount must be a finite number.'')
      else if length (qb_joins qb) > 0 then
        Inl (Error ''QueryBuilder.increment does not support joined queries.'')
      else
        let dbField = resolveFieldName qb field in
        case assertResolvedField qb dbField of
          Inl e \<Rightarrow> Inl e
        | Inr _ \<Rightarrow>
            (case incrementSchemaFieldName qb field of
               None \<Rightarrow>
                 Inl (TypeError (''QueryBuilder.increment could not resolve schema metadata for field ''
                                 @ sq @ field @ sq @ ''.''))
             | Some name \<Rightarrow>
                 if \<not> isNumericSchemaField qb name
                 then Inl (TypeError (''QueryBuilder.increment requires a numeric schema field; ''
                                      @ sq @ name @ sq @ '' is not numeric.''))
                 else
                   let (whereSql, whereParams) = buildWhereClause qb False in
                   if whereSql = [] then
                     Inl (Error ''QueryBuilder.increment requires a WHERE clause to avoid full-table updates.'')
                   else
                     let params = whereParams @ [amount];
                         amountPlaceholder = ''$'' @ show_nat (length whereParams + 1);
                         query = ''UPDATE '' @ tableName (modelClass qb) @ '' SET '' @ dbField
                                 @ '' = '' @ dbField @ '' + '' @ amountPlaceholder
                                 @ '' WHERE '' @ whereSql
                     in if length returning > 0 then
                          (case resolveReturning qb returning of
                             Inl e \<Rightarrow> Inl e
                           | Inr resolvedColumns \<Rightarrow>
                               Inr (query @ '' RETURNING '' @ join '', '' resolvedColumns, params))
                        else Inr (query, params)))"

definition increment ::
  "dal_query \<Rightarrow> query_builder \<Rightarrow> string \<Rightarrow> jsval \<Rightarrow> string list
     \<Rightarrow> (js_error + increment_result) \<times> statement list" where
  "increment dal qb field amount returning =
     (case increment_statement qb field amount returning of
        Inl e \<Rightarrow> (Inl e, [])
      | Inr (query, params) \<Rightarrow>
          (case dal query params of
             Inl e \<Rightarrow> (Inl e, [(query, params)])
           | Inr result \<Rightarrow>
               let resultRows =
                     (if length returning > 0
                      then map (\<lambda>row. remapRowToCamelCase row (fieldMappings (modelClass qb)))
                             (qr_rows result)
                      else [])
               in (Inr \<lparr>ir_rowCount = (case qr_rowCount result of
                                           None \<Rightarrow> length (qr_rows result) | Some n \<Rightarrow> n),
                         ir_rows = resultRows\<rparr>,
                   [(query, params)])))"

section \<open>Relation helpers: \<open>loadManyRelated\<close> and \<open>addManyRelated\<close>\<close>

fun js_typeof :: "jsval \<Rightarrow> string" where
  "js_typeof JUndefined = ''undefined''"
| "js_typeof (JBool b) = ''boolean''"
| "js_typeof (JNum n) = ''number''"
| "js_typeof JNaN = ''number''"
| "js_typeof (JInfinity neg) = ''number''"
| "js_typeof (JStr s) = ''string''"
| "js_typeof v = ''object''"

text \<open>\<open>[...new Set(ids.filter(non-empty string))]\<close>: first occurrences, in order.\<close>

fun nonEmptyString :: "jsval \<Rightarrow> string option" where
  "nonEmptyString (JStr s) = (if length s > 0 then Some s else None)"
| "nonEmptyString v = None"

definition uniqueIds :: "jsval list \<Rightarrow> string list" where
  "uniqueIds ids = rev (remdups (rev (List.map_filter nonEmptyString ids)))"

definition relationNotFound :: "model_class \<Rightarrow> string \<Rightarrow> js_error" where
  "relationNotFound mc relationName =
     (let availableRelations = map fst (getRelations mc);
          suggestion =
            (if length availableRelations > 0
             then '' Available relations: '' @ join '', '' availableRelations
             else '' No relations defined for this model.'')
      in Error (''Relation '' @ sq @ relationName @ sq @ '' not found for model '' @ sq
                @ tableName mc @ sq @ ''.'' @ suggestion))"

text \<open>\<open>dal.getModel\<close>: the registry lookup, which throws for an unknown name.\<close>

definition getModel :: "(string \<times> model_class) list \<Rightarrow> string \<Rightarrow> js_error + model_class" where
  "getModel reg name =
     (case (if name = [] then None else map_of reg name) of
        None \<Rightarrow> Inl (Error (''Model '' @ sq @ name @ sq @ '' not found''))
      | Some m \<Rightarrow> Inr m)"

definition revisionGuardsSql :: "string \<Rightarrow> string" where
  "revisionGuardsSql prefix =
     '' AND ('' @ prefix @ ''_old_rev_of IS NULL) AND ('' @ prefix @ ''_rev_deleted IS NULL OR ''
     @ prefix @ ''_rev_deleted = false)''"

text \<open>
  The statement of \<open>loadManyRelated\<close> for a relation (line breaks and indentation of the
  template written as single spaces): through the junction table when the relation carries a
  \<open>through\<close> specification, directly on the target table otherwise.
\<close>

definition loadManyRelatedQuery :: "string \<Rightarrow> relation_config \<Rightarrow> nat \<Rightarrow> string" where
  "loadManyRelatedQuery ns relationConfig n =
     (let targetTableName = ns @ rel_targetTable relationConfig;
          targetCol = or_default (rel_targetColumn relationConfig) ''id'';
          holders = join '', '' (placeholders n)
      in case (rel_through relationConfig, rel_joinType relationConfig) of
        (Some th, Through) \<Rightarrow>
          ''SELECT j.'' @ th_sourceColumn th @ '' AS __source_id, t.* FROM '' @ targetTableName
          @ '' t JOIN '' @ ns @ th_table th @ '' j ON t.'' @ targetCol @ '' = j.''
          @ th_targetColumn th @ '' WHERE j.'' @ th_sourceColumn th @ '' IN ('' @ holders @ '')''
          @ (if rel_hasRevisions relationConfig then revisionGuardsSql ''t.'' else [])
      | _ \<Rightarrow>
          ''SELECT '' @ targetCol @ '' AS __source_id, * FROM '' @ targetTableName
          @ '' WHERE '' @ targetCol @ '' IN ('' @ holders @ '')''
          @ (if rel_hasRevisions relationConfig then revisionGuardsSql [] else []))"

definition groupBySourceId ::
  "model_class \<Rightarrow> jsobject list \<Rightarrow> (string \<times> model_instance list) list" where
  "groupBySourceId targetModel rows =
     fold (\<lambda>row acc.
             case nonEmptyString (obj_get row ''__source_id'') of
               None \<Rightarrow> acc
             | Some sourceId \<Rightarrow>
                 let instance = createInstance targetModel (obj_delete ''__source_id'' row) in
                 if sourceId \<in> set (map fst acc)
                 then map (\<lambda>e. if fst e = sourceId then (sourceId, snd e @ [instance]) else e) acc
                 else acc @ [(sourceId, [instance])])
       rows []"

definition loadManyRelated ::
  "dal_query \<Rightarrow> (string \<times> model_class) list \<Rightarrow> string \<Rightarrow> model_class \<Rightarrow> string \<Rightarrow> jsval list
     \<Rightarrow> (js_error + (string \<times> model_instance list) list) \<times> statement list" where
  "loadManyRelated dal reg ns mc relationName sourceIds =
     (let ids = uniqueIds sourceIds in
      if length ids = 0 then (Inr [], [])
      else case getRelation mc relationName of
        None \<Rightarrow> (Inl (relationNotFound mc relationName), [])
      | Some relationConfig \<Rightarrow>
          let targetModelKey =
                or_default (rel_targetModelKey relationConfig) (rel_targetTable relationConfig)
          in case getModel reg targetModelKey of
            Inl e \<Rightarrow>
              (Inl (Error (''Target model '' @ sq @ targetModelKey @ sq
                           @ '' not found for relation '' @ sq @ relationName @ sq @ '': ''
                           @ err_message e)), [])
          | Inr targetModel \<Rightarrow>
              let query = loadManyRelatedQuery ns relationConfig (length ids);
                  params = map JStr ids
              in case dal query params of
                Inl e \<Rightarrow> (Inl e, [(query, params)])
              | Inr result \<Rightarrow>
                  (Inr (groupBySourceId targetModel (qr_rows result)), [(query, params)]))"

datatype on_conflict = Ignore | ConflictError

definition notJunctionRelation :: "string \<Rightarrow> js_error" where
  "notJunctionRelation relationName =
     Error (''Relation '' @ sq @ relationName @ sq
            @ '' is not a many-to-many relation with a junction table. ''
            @ ''Only relations with '' @ sq @ ''through'' @ sq
            @ '' configuration support addManyRelated.'')"

definition addManyRelated ::
  "dal_query \<Rightarrow> string \<Rightarrow> model_class \<Rightarrow> string \<Rightarrow> jsval \<Rightarrow> jsval list \<Rightarrow> on_conflict
     \<Rightarrow> (js_error + unit) \<times> statement list" where
  "addManyRelated dal ns mc relationName sourceId targetIds onConflict =
     (case nonEmptyString sourceId of
        None \<Rightarrow>
          (Inl (Error (''Invalid sourceId: expected non-empty string, got ''
                       @ (case sourceId of JStr s \<Rightarrow> ''empty string''
                          | _ \<Rightarrow> js_typeof sourceId))),
           [])
      | Some source \<Rightarrow>
          let ids = uniqueIds targetIds in
          if length ids = 0 then (Inr (), [])
          else case getRelation mc relationName of
            None \<Rightarrow> (Inl (relationNotFound mc relationName), [])
          | Some relationConfig \<Rightarrow>
              (case (rel_through relationConfig, rel_joinType relationConfig) of
                 (Some th, Through) \<Rightarrow>
                   let valueClauses =
                         map (\<lambda>i. ''($'' @ show_nat (2 * i + 1) @ '', $'' @ show_nat (2 * i + 2)
                                   @ '')'') [0..<length ids];
                       params = concat (map (\<lambda>targetId. [JStr source, JStr targetId]) ids);
                       query = ''INSERT INTO '' @ ns @ th_table th @ '' ('' @ th_sourceColumn th
                               @ '', '' @ th_targetColumn th @ '') VALUES ''
                               @ join '', '' valueClauses
                               @ (if onConflict = ConflictError then []
                                  else '' ON CONFLICT DO NOTHING'')
                   in (case dal query params of
                         Inl e \<Rightarrow> (Inl e, [(query, params)])
                       | Inr _ \<Rightarrow> (Inr (), [(query, params)]))
               | _ \<Rightarrow> (Inl (notJunctionRelation relationName), [])))"

section \<open>Query builder: the other statements\<close>

definition buildCountQuery :: "query_builder \<Rightarrow> string \<times> jsval list" where
  "buildCountQuery qb =
     (let (whereSql, params) = buildWhereClause qb (length (qb_joins qb) > 0) in
      (''SELECT COUNT(*) as count FROM '' @ tableName (modelClass qb)
       @ (if length (qb_joins qb) > 0 then '' '' @ join '' '' (qb_joins qb) else [])
       @ (if whereSql \<noteq> [] then '' WHERE '' @ whereSql else []), params))"

definition buildAggregateQuery :: "query_builder \<Rightarrow> string \<Rightarrow> string \<Rightarrow> string \<times> jsval list" where
  "buildAggregateQuery qb func column =
     (let (whereSql, params) = buildWhereClause qb True in
      (''SELECT '' @ func @ ''('' @ column @ '') as value FROM '' @ tableName (modelClass qb)
       @ (if whereSql \<noteq> [] then '' WHERE '' @ whereSql else []), params))"

definition buildGroupedAggregateQuery ::
  "query_builder \<Rightarrow> string \<Rightarrow> js_error + (string \<times> jsval list)" where
  "buildGroupedAggregateQuery qb aggregateExpr =
     (case qb_groupBy qb of
        [] \<Rightarrow> Inl (Error ''_buildGroupedAggregateQuery requires _groupBy to be set'')
      | groupByField # _ \<Rightarrow>
          let (whereSql, params) = buildWhereClause qb True in
          Inr (''SELECT '' @ groupByField @ '' as group_key, '' @ aggregateExpr
               @ '' as aggregate_value FROM '' @ tableName (modelClass qb)
               @ (if whereSql \<noteq> [] then '' WHERE '' @ whereSql else [])
               @ '' GROUP BY '' @ join '', '' (qb_groupBy qb), params))"

definition buildDeleteQuery :: "query_builder \<Rightarrow> string \<times> jsval list" where
  "buildDeleteQuery qb =
     (let (whereSql, params) = buildWhereClause qb False in
      (''DELETE FROM '' @ tableName (modelClass qb)
       @ (if whereSql \<noteq> [] then '' WHERE '' @ whereSql else []), params))"

definition orderBy :: "query_builder \<Rightarrow> string \<Rightarrow> sort_direction \<Rightarrow> query_builder" where
  "orderBy qb field direction =
     (let expression =
            (if \<not> includes_char field CHR ''('' then
               (let (table, column) = splitFieldReference field;
                    resolvedColumn = resolvePredicateColumn qb (truthy_str table) column
                in case truthy_str table of
                     Some t \<Rightarrow> t @ ''.'' @ resolvedColumn
                   | None \<Rightarrow> resolvedColumn)
             else field)
      in qb\<lparr>qb_orderBy := qb_orderBy qb @ [expression @ '' '' @ direction_word direction]\<rparr>)"

definition groupBy :: "query_builder \<Rightarrow> string list \<Rightarrow> query_builder" where
  "groupBy qb fieldArray =
     qb\<lparr>qb_groupBy := qb_groupBy qb
          @ map (\<lambda>field.
                   if \<not> includes_char field CHR ''('' \<and> \<not> includes_char field CHR ''.''
                   then tableName (modelClass qb) @ ''.'' @ resolvePredicateColumn qb None field
                   else field)
              fieldArray\<rparr>"

text \<open>\<open>run\<close> up to the call of the storage: the main SELECT, a failure converted.\<close>

definition run_statement :: "query_builder \<Rightarrow> js_error + (string \<times> jsval list)" where
  "run_statement qb =
     (case buildSelectQuery qb of Inl e \<Rightarrow> Inl (convertPostgreSQLError e) | Inr st \<Rightarrow> Inr st)"

text \<open>
  \<open>getAllRevisions\<close> drops every basic predicate on one of the two revision columns and adds
  the group \<open>(id = documentId OR _old_rev_of = documentId)\<close>.
\<close>

fun isRevisionFilterPredicate :: "predicate \<Rightarrow> bool" where
  "isRevisionFilterPredicate (Basic table column operator v transform) =
     (column = ''_old_rev_of'' \<or> column = ''_rev_deleted'')"
| "isRevisionFilterPredicate (Group cj predicates) = False"
| "isRevisionFilterPredicate (Raw sql params) = False"

definition getAllRevisions :: "query_builder \<Rightarrow> jsval \<Rightarrow> query_builder" where
  "getAllRevisions qb documentId =
     (let qb1 = qb\<lparr>qb_where := filter (\<lambda>p. \<not> isRevisionFilterPredicate p) (qb_where qb)\<rparr>;
          idPredicate = createPredicate qb1 ''id'' ''='' documentId no_options;
          oldRevPredicate = createPredicate qb1 ''_old_rev_of'' ''='' documentId no_options
      in qb1\<lparr>qb_where := qb_where qb1 @ [Group OR [idPredicate, oldRevPredicate]]\<rparr>)"

text \<open>
  \<open>orderByRelation\<close> and \<open>whereRelated\<close>. Both join the relation unless
  \<open>this._simpleJoins[relationName]\<close> is already truthy; \<open>_simpleJoins\<close> is undefined until the
  first simple join is recorded.
\<close>

definition simpleJoinRecorded :: "query_builder \<Rightarrow> string \<Rightarrow> bool" where
  "simpleJoinRecorded qb relationName =
     (qb_simpleJoins qb \<noteq> [] \<and> js_in relationName (map fst (qb_simpleJoins qb)))"

definition orderByRelation ::
  "query_builder \<Rightarrow> string \<Rightarrow> string \<Rightarrow> sort_direction \<Rightarrow> query_builder" where
  "orderByRelation qb relationName field direction =
     (case getJoinInfo qb relationName of
        None \<Rightarrow> qb
      | Some joinInfo \<Rightarrow>
          let qb1 = (if \<not> simpleJoinRecorded qb relationName then addSimpleJoin qb relationName
                     else qb);
              targetTable = (case truthy_str (ji_joinTable joinInfo) of
                               Some t \<Rightarrow> t
                             | None \<Rightarrow> ji_table joinInfo)
          in if targetTable = [] then qb1
             else qb1\<lparr>qb_orderBy := qb_orderBy qb1
                        @ [targetTable @ ''.'' @ normalizeColumnName field @ '' ''
                           @ direction_word direction]\<rparr>)"

definition whereRelated ::
  "query_builder \<Rightarrow> string \<Rightarrow> string \<Rightarrow> string \<Rightarrow> jsval \<Rightarrow> query_builder" where
  "whereRelated qb relationName field operator v =
     (case getJoinInfo qb relationName of
        None \<Rightarrow> qb
      | Some joinInfo \<Rightarrow>
          let qb1 = (if \<not> simpleJoinRecorded qb relationName then addSimpleJoin qb relationName
                     else qb);
              column = ji_table joinInfo @ ''.'' @ normalizeColumnName field
          in snd (addWhereCondition qb1 column operator v no_options))"

section \<open>Predicate-literal facade: chain methods and execution methods\<close>

text \<open>
  The sixteen chain methods of a \<open>FilterWhereBuilder\<close> as data, so that a chain is a list of
  calls.
\<close>

datatype chain_call =
    CallAnd "(string \<times> literal_value) list"
  | CallOr "(string \<times> literal_value) list"
  | CallIncludeDeleted
  | CallIncludeStale
  | CallIncludeSensitive "string list"
  | CallOrderBy string sort_direction
  | CallGroupBy "string list"
  | CallLimit int
  | CallOffset int
  | CallWhereIn string "jsval list" "string option"
  | CallGetJoin "(string \<times> join_relation_options) list"
  | CallGetAllRevisions jsval
  | CallGetRevisionByRevId jsval jsval
  | CallRevisionData "(string \<times> literal_value) list"
  | CallOrderByRelation string string sort_direction
  | CallWhereRelated string string jsval string

fun resolveAll :: "query_builder \<Rightarrow> string list \<Rightarrow> js_error + string list" where
  "resolveAll qb [] = Inr []"
| "resolveAll qb (field # rest) =
     (case assertResolvedField qb (resolveFieldName qb field) of
        Inl e \<Rightarrow> Inl e
      | Inr dbField \<Rightarrow>
          (case resolveAll qb rest of Inl e \<Rightarrow> Inl e | Inr others \<Rightarrow> Inr (dbField # others)))"

text \<open>
  The two history methods set both include flags themselves. \<open>revisionData\<close> applies its
  literal as \<open>and\<close> does: \<open>_createRevisionFieldPredicate\<close> has the body of
  \<open>_createFieldPredicate\<close>.
\<close>

definition fw_getAllRevisions :: "filter_where_builder \<Rightarrow> jsval \<Rightarrow> filter_where_builder" where
  "fw_getAllRevisions fw documentId =
     fw\<lparr>fwb_includeStale := True, fwb_includeDeleted := True,
        fwb_builder := getAllRevisions (fwb_builder fw) documentId\<rparr>"

definition fw_getRevisionByRevId ::
  "filter_where_builder \<Rightarrow> jsval \<Rightarrow> jsval \<Rightarrow> filter_where_builder" where
  "fw_getRevisionByRevId fw revId documentId =
     (let b1 = snd (addWhereCondition (fwb_builder fw) ''_rev_id'' ''='' revId no_options);
          b2 = getAllRevisions b1 documentId;
          b3 = limit b2 1
      in fw\<lparr>fwb_includeStale := True, fwb_includeDeleted := True, fwb_builder := b3\<rparr>)"

definition createRevisionFieldPredicate ::
  "filter_where_builder \<Rightarrow> string \<Rightarrow> literal_value \<Rightarrow> bool
     \<Rightarrow> js_error + (predicate option \<times> filter_where_builder)" where
  "createRevisionFieldPredicate fw field v mutate = createFieldPredicate fw field v mutate"

fun revisionData ::
  "filter_where_builder \<Rightarrow> (string \<times> literal_value) list \<Rightarrow> js_error + filter_where_builder"
  where
  "revisionData fw [] = Inr fw"
| "revisionData fw ((key, rawValue) # rest) =
     (case createRevisionFieldPredicate fw key rawValue True of
        Inl e \<Rightarrow> Inl e
      | Inr (_, fw') \<Rightarrow> revisionData fw' rest)"

definition fw_orderByRelation ::
  "filter_where_builder \<Rightarrow> string \<Rightarrow> string \<Rightarrow> sort_direction \<Rightarrow> filter_where_builder" where
  "fw_orderByRelation fw relation field direction =
     fw\<lparr>fwb_builder := orderByRelation (fwb_builder fw) relation field direction\<rparr>"

definition fw_whereRelated ::
  "filter_where_builder \<Rightarrow> string \<Rightarrow> string \<Rightarrow> jsval \<Rightarrow> string \<Rightarrow> filter_where_builder" where
  "fw_whereRelated fw relation field v operator =
     fw\<lparr>fwb_builder := whereRelated (fwb_builder fw) relation field operator v\<rparr>"

fun apply_call :: "filter_where_builder \<Rightarrow> chain_call \<Rightarrow> js_error + filter_where_builder" where
  "apply_call fw (CallAnd literal) = fw_and fw literal"
| "apply_call fw (CallOr literal) = fw_or fw literal"
| "apply_call fw CallIncludeDeleted = Inr (includeDeleted fw)"
| "apply_call fw CallIncludeStale = Inr (includeStale fw)"
| "apply_call fw (CallIncludeSensitive names) = Inr (fw_includeSensitive fw names)"
| "apply_call fw (CallOrderBy field direction) =
     (case assertResolvedField (fwb_builder fw) (resolveFieldName (fwb_builder fw) field) of
        Inl e \<Rightarrow> Inl e
      | Inr dbField \<Rightarrow> Inr (fw\<lparr>fwb_builder := orderBy (fwb_builder fw) dbField direction\<rparr>))"
| "apply_call fw (CallGroupBy names) =
     (case resolveAll (fwb_builder fw) names of
        Inl e \<Rightarrow> Inl e
      | Inr resolvedFields \<Rightarrow> Inr (fw\<lparr>fwb_builder := groupBy (fwb_builder fw) resolvedFields\<rparr>))"
| "apply_call fw (CallLimit n) = Inr (fw_limit fw n)"
| "apply_call fw (CallOffset n) = Inr (fw_offset fw n)"
| "apply_call fw (CallWhereIn field vals cast) = fw_whereIn fw field vals cast"
| "apply_call fw (CallGetJoin joinSpec) =
     Inr (fw\<lparr>fwb_builder := getJoin (fwb_builder fw) joinSpec\<rparr>)"
| "apply_call fw (CallGetAllRevisions documentId) = Inr (fw_getAllRevisions fw documentId)"
| "apply_call fw (CallGetRevisionByRevId revId documentId) =
     Inr (fw_getRevisionByRevId fw revId documentId)"
| "apply_call fw (CallRevisionData literal) = revisionData fw literal"
| "apply_call fw (CallOrderByRelation relation field direction) =
     Inr (fw_orderByRelation fw relation field direction)"
| "apply_call fw (CallWhereRelated relation field v operator) =
     Inr (fw_whereRelated fw relation field v operator)"



fun chain :: "filter_where_builder \<Rightarrow> chain_call list \<Rightarrow> js_error + filter_where_builder" where
  "chain fw [] = Inr fw"
| "chain fw (c # cs) = (case apply_call fw c of Inl e \<Rightarrow> Inl e | Inr fw' \<Rightarrow> chain fw' cs)"

text \<open>
  The execution methods, each up to the first statement it sends: the result is that statement
  (\<open>None\<close> when the method returns without one) or what it throws, with the builder as the
  method left it.
\<close>

datatype execution =
    ExecRun
  | ExecFirst
  | ExecCount
  | ExecAverage string
  | ExecDelete
  | ExecSample int
  | ExecAggregateGrouped string "string option"
  | ExecChronologicalFeed string jsval sort_direction int

definition set_builder :: "filter_where_builder \<Rightarrow> query_builder \<Rightarrow> filter_where_builder" where
  "set_builder fw qb = fw\<lparr>fwb_builder := qb\<rparr>"

fun execute_ensured ::
  "filter_where_builder \<Rightarrow> execution
     \<Rightarrow> (js_error + (string \<times> jsval list) option) \<times> filter_where_builder" where
  "execute_ensured fw ExecRun = (map_sum id Some (run_statement (fwb_builder fw)), fw)"
| "execute_ensured fw ExecFirst =
     (let qb = limit (fwb_builder fw) 1 in (map_sum id Some (run_statement qb), set_builder fw qb))"
| "execute_ensured fw ExecCount = (Inr (Some (buildCountQuery (fwb_builder fw))), fw)"
| "execute_ensured fw (ExecAverage field) =
     (case assertResolvedField (fwb_builder fw) (resolveFieldName (fwb_builder fw) field) of
        Inl e \<Rightarrow> (Inl e, fw)
      | Inr dbField \<Rightarrow>
          (Inr (Some (buildAggregateQuery (fwb_builder fw) ''AVG''
                        (if includes_char dbField CHR ''.'' \<or> includes_char dbField CHR ''(''
                         then dbField
                         else tableName (modelClass (fwb_builder fw)) @ ''.'' @ dbField))), fw))"
| "execute_ensured fw ExecDelete = (Inr (Some (buildDeleteQuery (fwb_builder fw))), fw)"
| "execute_ensured fw (ExecSample n) =
     (let qb = (fwb_builder fw)\<lparr>qb_orderBy := [''RANDOM()''], qb_limit := Some n\<rparr>
      in (map_sum id Some (run_statement qb), set_builder fw qb))"
| "execute_ensured fw (ExecAggregateGrouped func aggregateField) =
     (case (case truthy_str aggregateField of
              None \<Rightarrow> Inr None
            | Some f \<Rightarrow>
                map_sum id Some
                  (assertResolvedField (fwb_builder fw) (resolveFieldName (fwb_builder fw) f))) of
        Inl e \<Rightarrow> (Inl e, fw)
      | Inr resolvedField \<Rightarrow>
          if length (qb_groupBy (fwb_builder fw)) = 0 then
            (Inl (convertPostgreSQLError
                    (Error ''aggregateGrouped requires groupBy() to be called first'')), fw)
          else
            let aggregateColumn =
                  (case truthy_str resolvedField of
                     None \<Rightarrow> ''*''
                   | Some f \<Rightarrow>
                       if includes_char f CHR ''.'' \<or> includes_char f CHR ''('' then f
                       else tableName (modelClass (fwb_builder fw)) @ ''.''
                            @ resolveFieldName (fwb_builder fw) f)
            in (map_sum convertPostgreSQLError Some
                  (buildGroupedAggregateQuery (fwb_builder fw)
                     (func @ ''('' @ aggregateColumn @ '')'')), fw))"
| "execute_ensured fw (ExecChronologicalFeed cursorField cursor direction lim) =
     (let normalizedLimit = max 0 lim in
      if normalizedLimit = 0 then (Inr None, fw)
      else case assertResolvedField (fwb_builder fw)
                  (resolveFieldName (fwb_builder fw) cursorField) of
        Inl e \<Rightarrow> (Inl e, fw)
      | Inr dbField \<Rightarrow>
          let b1 = (if cursor \<noteq> JUndefined \<and> cursor \<noteq> JNull
                    then snd (addWhereCondition (fwb_builder fw) dbField
                                (if direction = ASC then ''>'' else ''<'') cursor no_options)
                    else fwb_builder fw);
              b2 = limit (orderBy b1 dbField direction) (normalizedLimit + 1)
          in (map_sum id Some (run_statement b2), set_builder fw b2))"

text \<open>Every execution method starts with \<open>this._ensureRevisionFilters()\<close>.\<close>

definition execute ::
  "filter_where_builder \<Rightarrow> execution
     \<Rightarrow> (js_error + (string \<times> jsval list) option) \<times> filter_where_builder" where
  "execute fw e = execute_ensured (ensureRevisionFilters fw) e"



text \<open>
  A model's storage columns are stable when no selected column name is itself the key of a
  field mapping to another column, nor the name of a virtual field: hydrating a row then
  stores every column under its own name.
\<close>

definition stable_key :: "model_class \<Rightarrow> string \<Rightarrow> bool" where
  "stable_key mc c =
     (getDbFieldName mc c = c
      \<and> (case map_of (schema mc) c of None \<Rightarrow> True | Some fieldDef \<Rightarrow> \<not> isVirtual fieldDef))"

definition columns_stable :: "model_class \<Rightarrow> bool" where
  "columns_stable mc = list_all (stable_key mc) (getColumnNames mc [])"

section \<open>Revision histories\<close>



















section \<open>Example models\<close>

text \<open>
  Concrete models on which the statements below are evaluated: a revision-enabled table of
  documents (a UUID identifier, a required title, and the revision fields of \<open>getSchema()\<close>
  with the registered field mappings), a table of users with a sensitive column, and a table
  of teams.
\<close>

definition required_string :: "jsval \<Rightarrow> string \<Rightarrow> js_error + jsval" where
  "required_string v fieldName =
     (case v of
        JStr s \<Rightarrow> Inr v
      | JNull \<Rightarrow> Inl (ValidationError (fieldName @ '' is required'') None)
      | JUndefined \<Rightarrow> Inl (ValidationError (fieldName @ '' is required'') None)
      | _ \<Rightarrow> Inl (ValidationError (fieldName @ '' must be a string'') None))"

definition optional_string :: "jsval \<Rightarrow> string \<Rightarrow> js_error + jsval" where
  "optional_string v fieldName =
     (case v of
        JStr s \<Rightarrow> Inr v
      | JNull \<Rightarrow> Inr v
      | JUndefined \<Rightarrow> Inr v
      | _ \<Rightarrow> Inl (ValidationError (fieldName @ '' must be a string'') None))"

definition optional_boolean :: "jsval \<Rightarrow> string \<Rightarrow> js_error + jsval" where
  "optional_boolean v fieldName =
     (case v of
        JBool b \<Rightarrow> Inr v
      | JNull \<Rightarrow> Inr v
      | JUndefined \<Rightarrow> Inr v
      | _ \<Rightarrow> Inl (ValidationError (fieldName @ '' must be a boolean'') None))"

definition optional_number :: "jsval \<Rightarrow> string \<Rightarrow> js_error + jsval" where
  "optional_number v fieldName =
     (case v of
        JNum n \<Rightarrow> Inr v
      | JNull \<Rightarrow> Inr v
      | JUndefined \<Rightarrow> Inr v
      | _ \<Rightarrow> Inl (ValidationError (fieldName @ '' must be a finite number'') None))"

definition required_date :: "jsval \<Rightarrow> string \<Rightarrow> js_error + jsval" where
  "required_date v fieldName =
     (case v of
        JDate t \<Rightarrow> Inr v
      | JNull \<Rightarrow> Inl (ValidationError (fieldName @ '' is required'') None)
      | JUndefined \<Rightarrow> Inl (ValidationError (fieldName @ '' is required'') None)
      | _ \<Rightarrow> Inl (ValidationError (fieldName @ '' must be a Date object'') None))"

definition optional_array :: "jsval \<Rightarrow> string \<Rightarrow> js_error + jsval" where
  "optional_array v fieldName =
     (case v of
        JArr xs \<Rightarrow> Inr v
      | JNull \<Rightarrow> Inr v
      | JUndefined \<Rightarrow> Inr v
      | _ \<Rightarrow> Inl (ValidationError (fieldName @ '' must be an array'') None))"

definition plain_field :: "(jsval \<Rightarrow> string \<Rightarrow> js_error + jsval) \<Rightarrow> field_def" where
  "plain_field f =
     \<lparr>validate = f, isVirtual = False, isSensitive = False, hasDefault = False,
      defaultValue = JUndefined, isNumberType = False\<rparr>"

text \<open>
  The validators of \<open>types.string().uuid(4)\<close>, with \<open>required(true)\<close> when the flag is set, and
  of \<open>types.array(types.string())\<close>. The pattern is the regular expression of \<open>uuid()\<close>, which
  ignores case and admits the versions 1 to 5.
\<close>

definition is_hex :: "char \<Rightarrow> bool" where
  "is_hex c =
     (let n = of_char c :: nat in
      (48 \<le> n \<and> n \<le> 57) \<or> (65 \<le> n \<and> n \<le> 70) \<or> (97 \<le> n \<and> n \<le> 102))"

definition uuid_pattern :: "string \<Rightarrow> bool" where
  "uuid_pattern s =
     (length s = 36
      \<and> list_all (\<lambda>i. if i \<in> set [8, 13, 18, 23] then s ! i = CHR ''-'' else is_hex (s ! i))
           [0..<36]
      \<and> s ! 14 \<in> set ''12345''
      \<and> s ! 19 \<in> set ''89abAB'')"

definition uuid_string :: "bool \<Rightarrow> jsval \<Rightarrow> string \<Rightarrow> js_error + jsval" where
  "uuid_string required v fieldName =
     (if required \<and> (v = JNull \<or> v = JUndefined)
      then Inl (ValidationError (fieldName @ '' is required'') None)
      else case v of
        JNull \<Rightarrow> Inr v
      | JUndefined \<Rightarrow> Inr v
      | JStr s \<Rightarrow> if uuid_pattern s then Inr v
                  else Inl (ValidationError ''Must be a valid UUID'' None)
      | _ \<Rightarrow> Inl (ValidationError (fieldName @ '' must be a string'') None))"

fun string_elements :: "string \<Rightarrow> nat \<Rightarrow> jsval list \<Rightarrow> js_error + jsval list" where
  "string_elements fieldName index [] = Inr []"
| "string_elements fieldName index (item # rest) =
     (case optional_string item (fieldName @ ''['' @ show_nat index @ '']'') of
        Inl e \<Rightarrow> Inl e
      | Inr validated \<Rightarrow>
          (case string_elements fieldName (Suc index) rest of
             Inl e \<Rightarrow> Inl e
           | Inr others \<Rightarrow> Inr (validated # others)))"

definition string_array :: "jsval \<Rightarrow> string \<Rightarrow> js_error + jsval" where
  "string_array v fieldName =
     (case v of
        JArr xs \<Rightarrow> map_sum id JArr (string_elements fieldName 0 xs)
      | JNull \<Rightarrow> Inr v
      | JUndefined \<Rightarrow> Inr v
      | _ \<Rightarrow> Inl (ValidationError (fieldName @ '' must be an array'') None))"

definition demo_documents :: model_class where
  "demo_documents =
     \<lparr>tableName = ''documents'',
      schema =
        [(''id'', plain_field (uuid_string False)),
         (''title'', plain_field required_string),
         (''_revUser'', plain_field (uuid_string True)),
         (''_revDate'', plain_field required_date),
         (''_revID'', plain_field (uuid_string True)),
         (''_oldRevOf'', plain_field (uuid_string False)),
         (''_revDeleted'', (plain_field optional_boolean)\<lparr>hasDefault := True,
                                                         defaultValue := JBool False\<rparr>),
         (''_revTags'', (plain_field string_array)\<lparr>hasDefault := True,
                                                  defaultValue := JArr []\<rparr>)],
      fieldMappings = BASE_REVISION_FIELD_MAPPINGS,
      relations = []\<rparr>"

definition demo_teams :: model_class where
  "demo_teams =
     \<lparr>tableName = ''teams'',
      schema =
        [(''id'', plain_field optional_string),
         (''name'', plain_field required_string),
         (''inviteSecret'', (plain_field optional_string)\<lparr>isSensitive := True\<rparr>)],
      fieldMappings = [(''inviteSecret'', ''invite_secret'')],
      relations = []\<rparr>"

definition demo_users :: model_class where
  "demo_users =
     \<lparr>tableName = ''users'',
      schema =
        [(''id'', plain_field optional_string),
         (''displayName'', plain_field required_string),
         (''password'', (plain_field optional_string)\<lparr>isSensitive := True\<rparr>),
         (''inviteLinkCount'', (plain_field optional_number)\<lparr>isNumberType := True\<rparr>),
         (''teamId'', plain_field optional_string)],
      fieldMappings =
        [(''displayName'', ''display_name''), (''inviteLinkCount'', ''invite_link_count''),
         (''teamId'', ''team_id'')],
      relations =
        [(''teams'',
          \<lparr>rel_targetTable = ''teams'', rel_targetModelKey = ''teams'', rel_sourceColumn = ''id'',
           rel_targetColumn = ''id'', rel_hasRevisions = False, rel_cardinality = Many,
           rel_isArray = True,
           rel_through = Some \<lparr>th_table = ''user_teams'', th_sourceColumn = ''user_id'',
                                th_targetColumn = ''team_id'', th_sourceCondition = None,
                                th_targetCondition = None\<rparr>,
           rel_joinType = Through, rel_condition = None\<rparr>),
         (''team'',
          \<lparr>rel_targetTable = ''teams'', rel_targetModelKey = ''teams'',
           rel_sourceColumn = ''team_id'', rel_targetColumn = ''id'', rel_hasRevisions = False,
           rel_cardinality = One, rel_isArray = False, rel_through = None,
           rel_joinType = Direct, rel_condition = None\<rparr>)]\<rparr>"

definition demo_registry :: "(string \<times> model_class) list" where
  "demo_registry = [(''users'', demo_users), (''teams'', demo_teams),
                    (''documents'', demo_documents)]"

definition demo_users_builder :: query_builder where
  "demo_users_builder = new_QueryBuilder demo_users [] demo_registry"

definition demo_dal :: dal_query where
  "demo_dal query params =
     Inr \<lparr>qr_rows = [[(''invite_link_count'', JNum 2)]], qr_rowCount = Some 1\<rparr>"

text \<open>
  A generator of identifiers: the first of sixteen UUIDs that the table does not hold yet. It
  is fresh on every table with fewer than sixteen rows.
\<close>

definition demo_candidates :: "string list" where
  "demo_candidates =
     map (\<lambda>c. ''aaaaaaaa-aaaa-4aaa-8aaa-aaaaaaaaaaa'' @ [c]) ''0123456789abcdef''"

definition demo_gen :: "table \<Rightarrow> string" where
  "demo_gen tbl =
     (case find (\<lambda>u. \<forall>r \<in> set tbl. row_get r ''id'' \<noteq> JStr u) demo_candidates of
        Some u \<Rightarrow> u
      | None \<Rightarrow> hd demo_candidates)"

definition demo_users_scoped :: query_builder where
  "demo_users_scoped = snd (addWhereCondition demo_users_builder ''id'' ''='' (JStr ''x'') no_options)"

text \<open>
  The shape of a version-4 UUID, the test \<open>isUUID.v4\<close> of the \<open>is-uuid\<close> package applies:
  five groups of hexadecimal digits, the third starting with 4 and the fourth with 8, 9, a or b.
\<close>

definition uuid_v4_shape :: "string \<Rightarrow> bool" where
  "uuid_v4_shape s =
     (length s = 36
      \<and> list_all (\<lambda>i. if i \<in> set [8, 13, 18, 23] then s ! i = CHR ''-'' else is_hex (s ! i))
           [0..<36]
      \<and> s ! 14 = CHR ''4''
      \<and> s ! 19 \<in> set ''89abAB'')"

definition demo_live_id :: string where
  "demo_live_id = ''11111111-1111-4111-8111-111111111111''"

definition demo_deleted_id :: string where
  "demo_deleted_id = ''22222222-2222-4222-8222-222222222222''"

definition demo_archived_id :: string where
  "demo_archived_id = ''33333333-3333-4333-8333-333333333333''"

definition demo_missing_id :: string where
  "demo_missing_id = ''44444444-4444-4444-8444-444444444444''"

definition demo_user_id :: string where
  "demo_user_id = ''55555555-5555-4555-8555-555555555555''"

definition demo_rev_id :: "char \<Rightarrow> string" where
  "demo_rev_id c = ''eeeeeeee-eeee-4eee-8eee-eeeeeeeeeee'' @ [c]"

definition demo_row ::
  "string \<Rightarrow> string \<Rightarrow> char \<Rightarrow> jsval \<Rightarrow> bool \<Rightarrow> jsobject" where
  "demo_row ident title mark oldRevOf deleted =
     [(''id'', JStr ident), (''title'', JStr title), (''_rev_user'', JStr demo_user_id),
      (''_rev_date'', JDate 0), (''_rev_id'', JStr (demo_rev_id mark)),
      (''_old_rev_of'', oldRevOf), (''_rev_deleted'', JBool deleted),
      (''_rev_tags'', JArr [])]"

definition demo_table :: table where
  "demo_table =
     [demo_row demo_live_id ''B'' CHR ''1'' JNull False,
      demo_row demo_archived_id ''A'' CHR ''2'' (JStr demo_live_id) False,
      demo_row demo_deleted_id ''C'' CHR ''3'' JNull True]"









section \<open>Objects, rows and hydration\<close>

lemma obj_get_Nil [simp]: "obj_get [] c = JUndefined"
  by (simp add: obj_get_def)

lemma obj_get_Cons [simp]: "obj_get ((k, v) # obj) c = (if c = k then v else obj_get obj c)"
  by (simp add: obj_get_def)

lemma obj_get_set: "obj_get (obj_set k v obj) k' = (if k' = k then v else obj_get obj k')"
  by (induction obj) auto

lemma map_fst_obj_set:
  "map fst (obj_set k v obj) = (if k \<in> fst ` set obj then map fst obj else map fst obj @ [k])"
  by (induction obj) (simp_all, force)

lemma keys_obj_set: "fst ` set (obj_set k v obj) = insert k (fst ` set obj)"
  using map_fst_obj_set [of k v obj, THEN arg_cong, of set] by (auto split: if_splits)

lemma distinct_obj_set: "distinct (map fst obj) \<Longrightarrow> distinct (map fst (obj_set k v obj))"
  by (simp add: map_fst_obj_set)

lemma obj_assign_Nil [simp]: "obj_assign target [] = target"
  by (simp add: obj_assign_def)

lemma obj_assign_Cons [simp]:
  "obj_assign target ((k, v) # src) = obj_assign (obj_set k v target) src"
  by (simp add: obj_assign_def)

lemma obj_get_assign_other:
  "c \<notin> set (map fst src) \<Longrightarrow> obj_get (obj_assign target src) c = obj_get target c"
  by (induction src arbitrary: target) (auto simp: obj_get_set)

lemma obj_get_assign_distinct:
  "distinct (map fst src) \<Longrightarrow> c \<in> set (map fst src)
     \<Longrightarrow> obj_get (obj_assign target src) c = obj_get src c"
proof (induction src arbitrary: target)
  case Nil
  then show ?case by simp
next
  case (Cons kv src)
  obtain k v where kv: "kv = (k, v)" by (cases kv)
  show ?case
  proof (cases "c = k")
    case True
    with Cons.prems kv have "c \<notin> set (map fst src)" by auto
    then have "obj_get (obj_assign (obj_set k v target) src) c = obj_get (obj_set k v target) c"
      by (rule obj_get_assign_other)
    with True kv show ?thesis by (simp add: obj_get_set)
  next
    case False
    with Cons.prems kv have "c \<in> set (map fst src)" "distinct (map fst src)" by auto
    with Cons.IH [of "obj_set k v target"] False kv show ?thesis by simp
  qed
qed

lemma project_row_fold:
  "obj_get (fold (\<lambda>c acc. obj_set c (row_get r c) acc) cols acc0) c
     = (if c \<in> set cols then row_get r c else obj_get acc0 c)"
  by (induction cols arbitrary: acc0) (auto simp: obj_get_set)

lemma obj_get_project_row: "c \<in> set cols \<Longrightarrow> obj_get (project_row cols r) c = row_get r c"
  by (simp add: project_row_def project_row_fold)

lemma keys_project_fold:
  "fst ` set (fold (\<lambda>c acc. obj_set c (row_get r c) acc) cols acc0) = set cols \<union> fst ` set acc0"
  by (induction cols arbitrary: acc0) (simp_all add: keys_obj_set)

lemma keys_project_row: "fst ` set (project_row cols r) = set cols"
  by (simp add: project_row_def keys_project_fold)

lemma distinct_project_fold:
  "distinct (map fst acc0) \<Longrightarrow> distinct (map fst (fold (\<lambda>c acc. obj_set c (row_get r c) acc) cols acc0))"
  by (induction cols arbitrary: acc0) (auto simp: distinct_obj_set)

lemma distinct_project_row: "distinct (map fst (project_row cols r))"
  by (simp add: project_row_def distinct_project_fold)

lemma setValue_stable:
  "stable_key mc k \<Longrightarrow> inst_data (setValue mc inst k v) = obj_set k v (inst_data inst)"
  by (auto simp: setValue_def stable_key_def split: option.splits)

lemma fold_setValue_stable:
  "\<forall>k \<in> set (map fst row). stable_key mc k
     \<Longrightarrow> inst_data (fold (\<lambda>kv acc. setValue mc acc (fst kv) (snd kv)) row inst)
         = obj_assign (inst_data inst) row"
  by (induction row arbitrary: inst) (auto simp: setValue_stable)

lemma inst_data_generateVirtualValues [simp]:
  "inst_data (generateVirtualValues mc inst) = inst_data inst"
proof -
  have "inst_data (fold (\<lambda>entry acc.
             let fieldName = fst entry; fieldDef = snd entry in
             if isVirtual fieldDef \<and> hasDefault fieldDef \<and> resolveDefault fieldDef \<noteq> JUndefined
             then acc\<lparr>inst_virtualFields :=
                        obj_set fieldName (resolveDefault fieldDef) (inst_virtualFields acc)\<rparr>
             else acc) sch inst) = inst_data inst"
    for sch :: "(string \<times> field_def) list"
    by (induction sch arbitrary: inst) (auto simp: Let_def)
  then show ?thesis by (simp add: generateVirtualValues_def)
qed

lemma inst_data_trackOriginalValues [simp]:
  "inst_data (trackOriginalValues mc inst) = inst_data inst"
proof -
  have "inst_data (fold (\<lambda>entry acc.
             if \<not> isVirtual (snd entry) then
               let dbFieldName = getDbFieldName mc (fst entry);
                   v = obj_get (inst_data acc) dbFieldName
               in if is_object v
                  then acc\<lparr>inst_originalData := obj_set dbFieldName v (inst_originalData acc)\<rparr>
                  else acc\<lparr>inst_originalData := obj_delete dbFieldName (inst_originalData acc)\<rparr>
             else acc) sch inst) = inst_data inst"
    for sch :: "(string \<times> field_def) list"
    by (induction sch arbitrary: inst) (auto simp: Let_def)
  then show ?thesis by (simp add: trackOriginalValues_def)
qed

lemma createInstance_data:
  assumes "\<forall>k \<in> set (map fst row). stable_key mc k" and "distinct (map fst row)"
    and "c \<in> set (map fst row)"
  shows "obj_get (inst_data (createInstance mc row)) c = obj_get row c"
  using assms
  by (simp add: createInstance_def new_Model_def Let_def fold_setValue_stable
      obj_get_assign_distinct)

lemma hydrate_projected_row:
  assumes "columns_stable mc" and "c \<in> set (getColumnNames mc [])"
  shows "obj_get (inst_data (createInstance mc (project_row (getColumnNames mc []) r))) c
           = row_get r c"
proof -
  have "\<forall>k \<in> set (map fst (project_row (getColumnNames mc []) r)). stable_key mc k"
    using assms(1) by (simp add: keys_project_row columns_stable_def list_all_iff)
  then show ?thesis
    using assms(2)
    by (simp add: createInstance_data distinct_project_row keys_project_row obj_get_project_row)
qed

section \<open>Operator misuse: empty membership lists\<close>

text \<open>
  C9. \<open>ops.in([])\<close> and \<open>ops.notIn([])\<close> throw at the call site: constructing the descriptor
  fails with a \<open>TypeError\<close>, whatever the cast option. The constructors take no builder, so
  no builder state exists that the failing call could have touched, and no descriptor is
  returned whose \<open>build\<close> could later issue anything.
\<close>

theorem ops_in_empty_throws:
  "ops_in [] cast = Inl (TypeError ''FilterWhere ops.in requires at least one value.'')
   \<and> ops_notIn [] cast = Inl (TypeError ''FilterWhere ops.in requires at least one value.'')"
  by (simp add: ops_in_def ops_notIn_def normalizeNonEmptyArrayValue_def)

section \<open>Empty containment lists\<close>

text \<open>
  C10. \<open>ops.containsAll([])\<close> and \<open>ops.containsAny([])\<close> cannot throw (the constructors
  are total and return a descriptor). The descriptor's \<open>build\<close> returns \<open>null\<close> and leaves
  the builder untouched, whatever the column and the \<open>mutate\<close> flag; so a literal that uses
  one of them on a field builds the same query as the empty literal, through \<open>and\<close> as through
  \<open>or\<close>, and on an entity without revision tracking the query returns every row of the table.
\<close>

theorem containsAll_containsAny_empty_no_restriction:
  assumes "operator = ops_containsAll (StringArray []) \<or> operator = ops_containsAny (StringArray [])"
    and "assertResolvedField (new_QueryBuilder mc ns reg) (getDbFieldName mc field) = Inr d"
  shows "op_build operator qb col mutate = (None, qb)
     \<and> filterWhere mc ns reg hasRev [(field, Operator operator)] = filterWhere mc ns reg hasRev []
     \<and> fw_or (new_FilterWhereBuilder (new_QueryBuilder mc ns reg) hasRev)
          [(field, Operator operator)]
        = Inr (new_FilterWhereBuilder (new_QueryBuilder mc ns reg) hasRev)
     \<and> (\<exists>fw. filterWhere mc ns reg False [(field, Operator operator)] = Inr fw
          \<and> fst (fw_run fw tbl)
              = Inr (map (\<lambda>r. createInstance mc (project_row (getColumnNames mc []) r)) tbl))"
proof -
  have build: "op_build operator b c m = (None, b)" for b c m
    using assms(1) by (auto simp: ops_containsAll_def ops_containsAny_def)
  have resolved: "assertResolvedField (fwb_builder (new_FilterWhereBuilder (new_QueryBuilder mc ns reg) h))
        (resolveFieldName (fwb_builder (new_FilterWhereBuilder (new_QueryBuilder mc ns reg) h)) field)
      = Inr d" for h
    using assms(2) by (simp add: new_FilterWhereBuilder_def resolveFieldName_def new_QueryBuilder_def)
  have anded: "fw_and (new_FilterWhereBuilder (new_QueryBuilder mc ns reg) h) [(field, Operator operator)]
      = Inr (new_FilterWhereBuilder (new_QueryBuilder mc ns reg) h)" for h
    using resolved [of h]
    by (simp add: fw_and_def applyLiteral_def createFieldPredicate_def build Let_def)
  have ored: "fw_or (new_FilterWhereBuilder (new_QueryBuilder mc ns reg) h) [(field, Operator operator)]
      = Inr (new_FilterWhereBuilder (new_QueryBuilder mc ns reg) h)" for h
    using resolved [of h]
    by (simp add: fw_or_def applyLiteral_def createFieldPredicate_def build Let_def)
  have same: "filterWhere mc ns reg hasRev [(field, Operator operator)] = filterWhere mc ns reg hasRev []"
    by (simp add: filterWhere_def anded) (simp add: fw_and_def applyLiteral_def)
  have everything: "fst (fw_run (new_FilterWhereBuilder (new_QueryBuilder mc ns reg) False) tbl)
      = Inr (map (\<lambda>r. createInstance mc (project_row (getColumnNames mc []) r)) tbl)"
    by (simp add: fw_run_def ensureRevisionFilters_def new_FilterWhereBuilder_def qb_run_def
        new_QueryBuilder_def buildSelectQuery_def buildWhereClause_def storage_select_def
        apply_limit_def apply_offset_def row_matches_def Let_def)
  show ?thesis
    using build same ored everything anded [of False] by (auto simp: filterWhere_def)
qed

theorem containsAll_containsAny_empty_no_restriction_witness:
  "assertResolvedField (new_QueryBuilder demo_teams [] demo_registry)
       (getDbFieldName demo_teams ''name'') = Inr ''name''
   \<and> filterWhere demo_teams [] demo_registry False
        [(''name'', Operator (ops_containsAll (StringArray [])))]
      = filterWhere demo_teams [] demo_registry False []"
proof -
  have h: "assertResolvedField (new_QueryBuilder demo_teams [] demo_registry)
       (getDbFieldName demo_teams ''name'') = Inr ''name''"
    by code_simp
  from containsAll_containsAny_empty_no_restriction [OF disjI1 [OF refl] h]
  show ?thesis using h by blast
qed

section \<open>Errors crossing the \<open>save\<close> boundary\<close>

lemma save_converts_validation_errors:
  assumes "validate_instance mc (detectInPlaceChanges mc inst) = Inl e"
  shows "save gen mc inst allowed tbl = (Inl (convertPostgreSQLError e), tbl)"
  using assms by (simp add: save_def)

lemma convert_ValidationError:
  "convertPostgreSQLError (ValidationError msg fld) = QueryError msg (Some (ValidationError msg fld))"
  by (simp add: convertPostgreSQLError_def ValidationError_def Let_def)

text \<open>
  C7. A new document whose required \<open>title\<close> is missing is saved. The schema validator
  rejects the value with a \<open>ValidationError\<close> before any statement is sent (the table is
  unchanged), but \<open>save\<close> passes every error caught in its \<open>try\<close> block through
  \<open>convertPostgreSQLError\<close>, whose switch on the vendor code does not know the code
  \<open>VALIDATION_ERROR\<close>: the caller receives a \<open>QueryError\<close> that wraps the validation error.
\<close>

theorem save_surfaces_validation_failure_as_QueryError:
  "save demo_gen demo_documents (new_Model demo_documents []) [] []
     = (Inl (QueryError ''title is required''
               (Some (ValidationError ''title is required'' None))), [])
   \<and> err_name (QueryError ''title is required''
                 (Some (ValidationError ''title is required'' None))) = ''QueryError''
   \<and> err_name (ValidationError ''title is required'' None) = ''ValidationError''"
  by code_simp

section \<open>Columns selected by joined queries\<close>

text \<open>
  C5. A query on users joins the many-cardinality relation \<open>teams\<close>, whose target model
  declares the sensitive field \<open>inviteSecret\<close>. The relation is loaded by the batched
  strategy, and the follow-up statement selects \<open>teams_target.*\<close>: every column of the joined
  entity, the sensitive one included. The inline strategy, on the one-cardinality relation
  \<open>team\<close> to the same model, enumerates the target's non-sensitive columns under
  \<open>relation_column\<close> aliases.
\<close>

theorem batched_join_selects_every_target_column:
  "complexJoinStatement (getJoin demo_users_builder [(''teams'', JoinTrue)]) ''teams'' [JStr ''u1'']
     = Some (''SELECT teams_target.*, teams_through.user_id AS _join_source_id FROM teams teams_target JOIN user_teams teams_through ON teams_through.team_id = teams_target.id WHERE teams_through.user_id = ANY($1)'',
             [JArr [JStr ''u1'']])
   \<and> ''inviteSecret'' \<in> set (getSensitiveFieldNames demo_teams)
   \<and> buildSelectQuery (getJoin demo_users_builder [(''team'', JoinTrue)])
     = Inr (''SELECT users.id, users.display_name, users.invite_link_count, users.team_id, teams.id AS ''
            @ dq @ ''team_id'' @ dq @ '', teams.name AS '' @ dq @ ''team_name'' @ dq
            @ '' FROM users LEFT JOIN teams ON users.team_id = teams.id'', [])"
  by code_simp

section \<open>Atomic increment\<close>

lemma reverse_mapping_lookup:
  assumes "distinct (map snd fm)" and "(camel, snake) \<in> set fm"
  shows "map_of (map (\<lambda>e. (snd e, fst e)) (rev fm)) snake = Some camel"
proof -
  have "distinct (map fst (map (\<lambda>e. (snd e, fst e)) (rev fm)))"
    using assms(1) by (simp add: comp_def rev_map [symmetric])
  moreover have "(snake, camel) \<in> set (map (\<lambda>e. (snd e, fst e)) (rev fm))"
    using assms(2) by force
  ultimately show ?thesis by (rule map_of_is_SomeI)
qed

lemma obj_set_absent: "k \<notin> fst ` set obj \<Longrightarrow> obj_set k v obj = obj @ [(k, v)]"
  by (induction obj) auto

lemma fold_obj_set_fresh_keys:
  "distinct (map f (map fst row)) \<Longrightarrow> f ` fst ` set row \<inter> fst ` set acc = {}
   \<Longrightarrow> fold (\<lambda>kv acc. obj_set (f (fst kv)) (snd kv) acc) row acc
       = acc @ map (\<lambda>kv. (f (fst kv), snd kv)) row"
proof (induction row arbitrary: acc)
  case Nil
  then show ?case by simp
next
  case (Cons kv row)
  from Cons.prems(2) have absent: "f (fst kv) \<notin> fst ` set acc"
    by auto
  have "f ` fst ` set row \<inter> fst ` set (acc @ [(f (fst kv), snd kv)]) = {}"
    using Cons.prems by auto
  with Cons.prems(1) Cons.IH [of "acc @ [(f (fst kv), snd kv)]"] absent show ?case
    by (simp add: obj_set_absent)
qed

text \<open>
  C6, as the code has it. \<open>increment\<close> throws, and sends nothing, when the builder has no
  predicate, when the schema entry of the field is not a number type, and when the builder
  carries inline join clauses (\<open>_joins\<close>). The checks run in the order amount, inline joins,
  column reference, schema entry, WHERE clause, and each throws its own error: with a finite
  amount, inline joins give \<open>Error\<close> "does not support joined queries"; past that and the
  column check, a schema entry that is not a number type gives the \<open>TypeError\<close> that names the
  field as "not numeric"; past that, a WHERE clause that renders empty gives \<open>Error\<close>
  "requires a WHERE clause to avoid full-table updates". When the amount is finite, there are
  no inline join clauses, the field resolves to a numeric schema entry, the WHERE clause
  renders non-empty and the RETURNING columns resolve, exactly one statement is sent,
  \<open>UPDATE t SET col = col + $n WHERE ...\<close> with the amount as the last parameter, and every
  returned row is remapped: each of its columns is stored under the logical name that the
  registered mappings give its storage name (the storage name itself when no mapping
  registers it), with its value, in the order of the row.
\<close>

theorem increment_guards_and_statement:
  "(qb_where qb = [] \<longrightarrow> (\<exists>e. increment dal qb field amount returning = (Inl e, [])))
   \<and> (incrementSchemaFieldName qb field = Some name \<and> \<not> isNumericSchemaField qb name
        \<longrightarrow> (\<exists>e. increment dal qb field amount returning = (Inl e, [])))
   \<and> (qb_joins qb \<noteq> [] \<longrightarrow> (\<exists>e. increment dal qb field amount returning = (Inl e, [])))
   \<and> (is_finite_number amount \<and> qb_joins qb \<noteq> []
        \<longrightarrow> increment dal qb field amount returning
            = (Inl (Error ''QueryBuilder.increment does not support joined queries.''), []))
   \<and> (is_finite_number amount \<and> qb_joins qb = []
        \<and> assertResolvedField qb (resolveFieldName qb field) = Inr d
        \<and> incrementSchemaFieldName qb field = Some name \<and> \<not> isNumericSchemaField qb name
        \<longrightarrow> increment dal qb field amount returning
            = (Inl (TypeError (''QueryBuilder.increment requires a numeric schema field; ''
                               @ sq @ name @ sq @ '' is not numeric.'')), []))
   \<and> (is_finite_number amount \<and> qb_joins qb = []
        \<and> assertResolvedField qb (resolveFieldName qb field) = Inr d
        \<and> incrementSchemaFieldName qb field = Some name' \<and> isNumericSchemaField qb name'
        \<and> fst (buildWhereClause qb False) = []
        \<longrightarrow> increment dal qb field amount returning
            = (Inl (Error ''QueryBuilder.increment requires a WHERE clause to avoid full-table updates.''),
               []))
   \<and> (qb_where qb = [] \<longrightarrow> fst (buildWhereClause qb False) = [])
   \<and> (is_finite_number amount \<and> qb_joins qb = []
        \<and> assertResolvedField qb (resolveFieldName qb field) = Inr d
        \<and> incrementSchemaFieldName qb field = Some name' \<and> isNumericSchemaField qb name'
        \<and> buildWhereClause qb False = (w, ps) \<and> w \<noteq> []
        \<and> resolveReturning qb returning = Inr cols
        \<and> dal (''UPDATE '' @ tableName (modelClass qb) @ '' SET '' @ resolveFieldName qb field
                 @ '' = '' @ resolveFieldName qb field @ '' + $'' @ show_nat (length ps + 1)
                 @ '' WHERE '' @ w
                 @ (if returning = [] then [] else '' RETURNING '' @ join '', '' cols))
               (ps @ [amount]) = Inr res
        \<longrightarrow> increment dal qb field amount returning
            = (Inr \<lparr>ir_rowCount = (case qr_rowCount res of None \<Rightarrow> length (qr_rows res)
                                       | Some n \<Rightarrow> n),
                     ir_rows = (if returning = [] then []
                                else map (\<lambda>row. remapRowToCamelCase row
                                                  (fieldMappings (modelClass qb)))
                                       (qr_rows res))\<rparr>,
               [(''UPDATE '' @ tableName (modelClass qb) @ '' SET '' @ resolveFieldName qb field
                 @ '' = '' @ resolveFieldName qb field @ '' + $'' @ show_nat (length ps + 1)
                 @ '' WHERE '' @ w
                 @ (if returning = [] then [] else '' RETURNING '' @ join '', '' cols),
                 ps @ [amount])]))
   \<and> (distinct (map snd fm) \<and> (camel, snake) \<in> set fm
        \<longrightarrow> remapRowToCamelCase [(snake, v)] fm = [(camel, v)])
   \<and> (fm \<noteq> [] \<and> distinct (map (camelKey fm) (map fst row))
        \<longrightarrow> remapRowToCamelCase row fm = map (\<lambda>kv. (camelKey fm (fst kv), snd kv)) row)
   \<and> remapRowToCamelCase row [] = row
   \<and> (distinct (map snd fm) \<and> (camel, snake) \<in> set fm \<longrightarrow> camelKey fm snake = camel)
   \<and> (key \<notin> snd ` set fm \<longrightarrow> camelKey fm key = key)"
proof (intro conjI impI)
  assume "qb_where qb = []"
  then show "\<exists>e. increment dal qb field amount returning = (Inl e, [])"
    by (auto simp: increment_def increment_statement_def buildWhereClause_def Let_def
        split: sum.splits option.splits)
next
  assume "incrementSchemaFieldName qb field = Some name \<and> \<not> isNumericSchemaField qb name"
  then show "\<exists>e. increment dal qb field amount returning = (Inl e, [])"
    by (auto simp: increment_def increment_statement_def Let_def split: sum.splits option.splits)
next
  assume "qb_joins qb \<noteq> []"
  then show "\<exists>e. increment dal qb field amount returning = (Inl e, [])"
    by (auto simp: increment_def increment_statement_def Let_def split: sum.splits option.splits)
next
  assume "is_finite_number amount \<and> qb_joins qb \<noteq> []"
  then show "increment dal qb field amount returning
            = (Inl (Error ''QueryBuilder.increment does not support joined queries.''), [])"
    by (simp add: increment_def increment_statement_def)
next
  assume "is_finite_number amount \<and> qb_joins qb = []
        \<and> assertResolvedField qb (resolveFieldName qb field) = Inr d
        \<and> incrementSchemaFieldName qb field = Some name \<and> \<not> isNumericSchemaField qb name"
  then show "increment dal qb field amount returning
            = (Inl (TypeError (''QueryBuilder.increment requires a numeric schema field; ''
                               @ sq @ name @ sq @ '' is not numeric.'')), [])"
    by (simp add: increment_def increment_statement_def Let_def)
next
  assume "is_finite_number amount \<and> qb_joins qb = []
        \<and> assertResolvedField qb (resolveFieldName qb field) = Inr d
        \<and> incrementSchemaFieldName qb field = Some name' \<and> isNumericSchemaField qb name'
        \<and> fst (buildWhereClause qb False) = []"
  moreover obtain ps where "buildWhereClause qb False = (fst (buildWhereClause qb False), ps)"
    by (cases "buildWhereClause qb False") simp
  ultimately have "increment_statement qb field amount returning
      = Inl (Error ''QueryBuilder.increment requires a WHERE clause to avoid full-table updates.'')"
    by (simp add: increment_statement_def Let_def)
  then show "increment dal qb field amount returning
            = (Inl (Error ''QueryBuilder.increment requires a WHERE clause to avoid full-table updates.''),
               [])"
    by (simp add: increment_def)
next
  assume "qb_where qb = []"
  then show "fst (buildWhereClause qb False) = []"
    by (simp add: buildWhereClause_def)
next
  assume "is_finite_number amount \<and> qb_joins qb = []
        \<and> assertResolvedField qb (resolveFieldName qb field) = Inr d
        \<and> incrementSchemaFieldName qb field = Some name' \<and> isNumericSchemaField qb name'
        \<and> buildWhereClause qb False = (w, ps) \<and> w \<noteq> []
        \<and> resolveReturning qb returning = Inr cols
        \<and> dal (''UPDATE '' @ tableName (modelClass qb) @ '' SET '' @ resolveFieldName qb field
                 @ '' = '' @ resolveFieldName qb field @ '' + $'' @ show_nat (length ps + 1)
                 @ '' WHERE '' @ w
                 @ (if returning = [] then [] else '' RETURNING '' @ join '', '' cols))
               (ps @ [amount]) = Inr res"
  then have hyps: "is_finite_number amount" "qb_joins qb = []"
      "assertResolvedField qb (resolveFieldName qb field) = Inr d"
      "incrementSchemaFieldName qb field = Some name'" "isNumericSchemaField qb name'"
      "buildWhereClause qb False = (w, ps)" "w \<noteq> []"
      "resolveReturning qb returning = Inr cols"
    and answer: "dal (''UPDATE '' @ tableName (modelClass qb) @ '' SET '' @ resolveFieldName qb field
                 @ '' = '' @ resolveFieldName qb field @ '' + $'' @ show_nat (length ps + 1)
                 @ '' WHERE '' @ w
                 @ (if returning = [] then [] else '' RETURNING '' @ join '', '' cols))
               (ps @ [amount]) = Inr res"
    by blast+
  have stmt: "increment_statement qb field amount returning
      = Inr (''UPDATE '' @ tableName (modelClass qb) @ '' SET '' @ resolveFieldName qb field
                 @ '' = '' @ resolveFieldName qb field @ '' + $'' @ show_nat (length ps + 1)
                 @ '' WHERE '' @ w
                 @ (if returning = [] then [] else '' RETURNING '' @ join '', '' cols),
             ps @ [amount])"
    using hyps by (simp add: increment_statement_def Let_def)
  show "increment dal qb field amount returning
            = (Inr \<lparr>ir_rowCount = (case qr_rowCount res of None \<Rightarrow> length (qr_rows res)
                                       | Some n \<Rightarrow> n),
                     ir_rows = (if returning = [] then []
                                else map (\<lambda>row. remapRowToCamelCase row
                                                  (fieldMappings (modelClass qb)))
                                       (qr_rows res))\<rparr>,
               [(''UPDATE '' @ tableName (modelClass qb) @ '' SET '' @ resolveFieldName qb field
                 @ '' = '' @ resolveFieldName qb field @ '' + $'' @ show_nat (length ps + 1)
                 @ '' WHERE '' @ w
                 @ (if returning = [] then [] else '' RETURNING '' @ join '', '' cols),
                 ps @ [amount])])"
    unfolding increment_def stmt using answer by (simp add: Let_def)
next
  assume "distinct (map snd fm) \<and> (camel, snake) \<in> set fm"
  then have "map_of (map (\<lambda>e. (snd e, fst e)) (rev fm)) snake = Some camel"
    by (simp add: reverse_mapping_lookup)
  moreover have "fm \<noteq> []"
    using \<open>distinct (map snd fm) \<and> (camel, snake) \<in> set fm\<close> by auto
  ultimately show "remapRowToCamelCase [(snake, v)] fm = [(camel, v)]"
    by (simp add: remapRowToCamelCase_def camelKey_def reverseMapping_def)
next
  assume "fm \<noteq> [] \<and> distinct (map (camelKey fm) (map fst row))"
  then show "remapRowToCamelCase row fm = map (\<lambda>kv. (camelKey fm (fst kv), snd kv)) row"
    using fold_obj_set_fresh_keys [of "camelKey fm" row "[]"]
    by (simp add: remapRowToCamelCase_def)
next
  show "remapRowToCamelCase row [] = row"
    by (simp add: remapRowToCamelCase_def)
next
  assume "distinct (map snd fm) \<and> (camel, snake) \<in> set fm"
  then have "map_of (map (\<lambda>e. (snd e, fst e)) (rev fm)) snake = Some camel"
    by (simp add: reverse_mapping_lookup)
  then show "camelKey fm snake = camel"
    by (simp add: camelKey_def reverseMapping_def)
next
  assume "key \<notin> snd ` set fm"
  then have "map_of (map (\<lambda>e. (snd e, fst e)) (rev fm)) key = None"
    by (simp add: map_of_eq_None_iff image_image)
  then show "camelKey fm key = key"
    by (simp add: camelKey_def reverseMapping_def)
qed

theorem increment_guards_and_statement_witness:
  "increment demo_dal demo_users_builder ''inviteLinkCount'' (JNum 1) []
     = (Inl (Error ''QueryBuilder.increment requires a WHERE clause to avoid full-table updates.''),
        [])
   \<and> increment demo_dal demo_users_scoped ''displayName'' (JNum 1) []
     = (Inl (TypeError ''QueryBuilder.increment requires a numeric schema field; 'displayName' is not numeric.''),
        [])
   \<and> increment demo_dal demo_users_scoped ''toString'' (JNum 1) []
     = (Inl (TypeError ''QueryBuilder.increment requires a numeric schema field; 'toString' is not numeric.''),
        [])
   \<and> increment demo_dal (getJoin demo_users_scoped [(''team'', JoinTrue)])
        ''inviteLinkCount'' (JNum 1) []
     = (Inl (Error ''QueryBuilder.increment does not support joined queries.''), [])
   \<and> increment demo_dal demo_users_scoped ''inviteLinkCount'' (JNum 1) [''inviteLinkCount'']
       = (Inr \<lparr>ir_rowCount = 1, ir_rows = [[(''inviteLinkCount'', JNum 2)]]\<rparr>,
          [(''UPDATE users SET invite_link_count = invite_link_count + $2 WHERE id = $1 RETURNING invite_link_count'',
            [JStr ''x'', JNum 1])])
   \<and> remapRowToCamelCase [(''invite_link_count'', JNum 2)] (fieldMappings demo_users)
       = [(''inviteLinkCount'', JNum 2)]
   \<and> remapRowToCamelCase [(''id'', JStr ''x''), (''invite_link_count'', JNum 2)]
         (fieldMappings demo_users)
       = [(''id'', JStr ''x''), (''inviteLinkCount'', JNum 2)]"
proof -
  have a: "qb_where demo_users_builder = []"
    by code_simp
  have a': "is_finite_number (JNum 1) \<and> qb_joins demo_users_builder = []
        \<and> assertResolvedField demo_users_builder
             (resolveFieldName demo_users_builder ''inviteLinkCount'') = Inr ''invite_link_count''
        \<and> incrementSchemaFieldName demo_users_builder ''inviteLinkCount'' = Some ''inviteLinkCount''
        \<and> isNumericSchemaField demo_users_builder ''inviteLinkCount''
        \<and> fst (buildWhereClause demo_users_builder False) = []"
    by code_simp
  have b: "is_finite_number (JNum 1) \<and> qb_joins demo_users_scoped = []
        \<and> assertResolvedField demo_users_scoped (resolveFieldName demo_users_scoped ''displayName'')
            = Inr ''display_name''
        \<and> incrementSchemaFieldName demo_users_scoped ''displayName'' = Some ''displayName''
        \<and> \<not> isNumericSchemaField demo_users_scoped ''displayName''"
    by code_simp
  have b': "is_finite_number (JNum 1) \<and> qb_joins demo_users_scoped = []
        \<and> assertResolvedField demo_users_scoped (resolveFieldName demo_users_scoped ''toString'')
            = Inr ''toString''
        \<and> incrementSchemaFieldName demo_users_scoped ''toString'' = Some ''toString''
        \<and> \<not> isNumericSchemaField demo_users_scoped ''toString''"
    by code_simp
  have c: "is_finite_number (JNum 1)
        \<and> qb_joins (getJoin demo_users_scoped [(''team'', JoinTrue)]) \<noteq> []"
    by code_simp
  have d: "is_finite_number (JNum 1) \<and> qb_joins demo_users_scoped = []
        \<and> assertResolvedField demo_users_scoped (resolveFieldName demo_users_scoped ''inviteLinkCount'')
            = Inr ''invite_link_count''
        \<and> incrementSchemaFieldName demo_users_scoped ''inviteLinkCount'' = Some ''inviteLinkCount''
        \<and> isNumericSchemaField demo_users_scoped ''inviteLinkCount''
        \<and> buildWhereClause demo_users_scoped False = (''id = $1'', [JStr ''x''])
        \<and> ''id = $1'' \<noteq> []
        \<and> resolveReturning demo_users_scoped [''inviteLinkCount''] = Inr [''invite_link_count'']
        \<and> demo_dal (''UPDATE '' @ tableName (modelClass demo_users_scoped) @ '' SET ''
                 @ resolveFieldName demo_users_scoped ''inviteLinkCount''
                 @ '' = '' @ resolveFieldName demo_users_scoped ''inviteLinkCount'' @ '' + $''
                 @ show_nat (length [JStr ''x''] + 1)
                 @ '' WHERE '' @ ''id = $1''
                 @ (if [''inviteLinkCount''] = [] then []
                    else '' RETURNING '' @ join '', '' [''invite_link_count'']))
               ([JStr ''x''] @ [JNum 1])
            = Inr \<lparr>qr_rows = [[(''invite_link_count'', JNum 2)]], qr_rowCount = Some 1\<rparr>"
    by code_simp
  have e: "distinct (map snd (fieldMappings demo_users))
           \<and> (''inviteLinkCount'', ''invite_link_count'') \<in> set (fieldMappings demo_users)"
    by code_simp
  have f: "fieldMappings demo_users \<noteq> []
           \<and> distinct (map (camelKey (fieldMappings demo_users))
                          (map fst [(''id'', JStr ''x''), (''invite_link_count'', JNum 2)]))"
    by code_simp
  have names: "camelKey (fieldMappings demo_users) ''id'' = ''id''"
    "camelKey (fieldMappings demo_users) ''invite_link_count'' = ''inviteLinkCount''"
    "''QueryBuilder.increment requires a numeric schema field; '' @ sq @ ''displayName'' @ sq
       @ '' is not numeric.''
     = ''QueryBuilder.increment requires a numeric schema field; 'displayName' is not numeric.''"
    "''QueryBuilder.increment requires a numeric schema field; '' @ sq @ ''toString'' @ sq
       @ '' is not numeric.''
     = ''QueryBuilder.increment requires a numeric schema field; 'toString' is not numeric.''"
    by code_simp+
  have evaluated:
    "increment demo_dal demo_users_scoped ''inviteLinkCount'' (JNum 1) [''inviteLinkCount'']
       = (Inr \<lparr>ir_rowCount = 1, ir_rows = [[(''inviteLinkCount'', JNum 2)]]\<rparr>,
          [(''UPDATE users SET invite_link_count = invite_link_count + $2 WHERE id = $1 RETURNING invite_link_count'',
            [JStr ''x'', JNum 1])])"
    by code_simp
  note main = increment_guards_and_statement
  note joined = main [THEN conjunct2, THEN conjunct2, THEN conjunct2, THEN conjunct1, THEN mp]
  note not_numeric = main [THEN conjunct2, THEN conjunct2, THEN conjunct2, THEN conjunct2,
      THEN conjunct1, THEN mp]
  note no_where = main [THEN conjunct2, THEN conjunct2, THEN conjunct2, THEN conjunct2,
      THEN conjunct2, THEN conjunct1, THEN mp]
  note empty_where = main [THEN conjunct2, THEN conjunct2, THEN conjunct2, THEN conjunct2,
      THEN conjunct2, THEN conjunct2, THEN conjunct1, THEN mp]
  note sent = main [where qb = demo_users_scoped and dal = demo_dal
      and field = "''inviteLinkCount''" and amount = "JNum 1"
      and returning = "[''inviteLinkCount'']" and d = "''invite_link_count''"
      and name' = "''inviteLinkCount''" and w = "''id = $1''" and ps = "[JStr ''x'']"
      and cols = "[''invite_link_count'']"
      and res = "\<lparr>qr_rows = [[(''invite_link_count'', JNum 2)]], qr_rowCount = Some 1\<rparr>",
      THEN conjunct2, THEN conjunct2, THEN conjunct2, THEN conjunct2,
      THEN conjunct2, THEN conjunct2, THEN conjunct2, THEN conjunct1, THEN mp]
  note one_column = main [THEN conjunct2, THEN conjunct2, THEN conjunct2, THEN conjunct2,
      THEN conjunct2, THEN conjunct2, THEN conjunct2, THEN conjunct2, THEN conjunct1, THEN mp]
  note any_row = main [THEN conjunct2, THEN conjunct2, THEN conjunct2, THEN conjunct2,
      THEN conjunct2, THEN conjunct2, THEN conjunct2, THEN conjunct2, THEN conjunct2,
      THEN conjunct1, THEN mp]
  have W: "fst (buildWhereClause demo_users_builder False) = []"
    by (rule empty_where [OF a])
  have A: "increment demo_dal demo_users_builder ''inviteLinkCount'' (JNum 1) []
     = (Inl (Error ''QueryBuilder.increment requires a WHERE clause to avoid full-table updates.''),
        [])"
    by (rule no_where [OF a'])
  have "increment demo_dal demo_users_scoped ''displayName'' (JNum 1) []
     = (Inl (TypeError (''QueryBuilder.increment requires a numeric schema field; '' @ sq
                        @ ''displayName'' @ sq @ '' is not numeric.'')), [])"
    by (rule not_numeric [OF b])
  then have B: "increment demo_dal demo_users_scoped ''displayName'' (JNum 1) []
     = (Inl (TypeError ''QueryBuilder.increment requires a numeric schema field; 'displayName' is not numeric.''),
        [])"
    by (simp only: names(3))
  have "increment demo_dal demo_users_scoped ''toString'' (JNum 1) []
     = (Inl (TypeError (''QueryBuilder.increment requires a numeric schema field; '' @ sq
                        @ ''toString'' @ sq @ '' is not numeric.'')), [])"
    by (rule not_numeric [OF b'])
  then have B': "increment demo_dal demo_users_scoped ''toString'' (JNum 1) []
     = (Inl (TypeError ''QueryBuilder.increment requires a numeric schema field; 'toString' is not numeric.''),
        [])"
    by (simp only: names(4))
  have C: "increment demo_dal (getJoin demo_users_scoped [(''team'', JoinTrue)])
        ''inviteLinkCount'' (JNum 1) []
     = (Inl (Error ''QueryBuilder.increment does not support joined queries.''), [])"
    by (rule joined [OF c])
  have E: "remapRowToCamelCase [(''invite_link_count'', JNum 2)] (fieldMappings demo_users)
       = [(''inviteLinkCount'', JNum 2)]"
    by (rule one_column [OF e])
  have "remapRowToCamelCase [(''id'', JStr ''x''), (''invite_link_count'', JNum 2)]
         (fieldMappings demo_users)
       = map (\<lambda>kv. (camelKey (fieldMappings demo_users) (fst kv), snd kv))
           [(''id'', JStr ''x''), (''invite_link_count'', JNum 2)]"
    by (rule any_row [OF f])
  then have F: "remapRowToCamelCase [(''id'', JStr ''x''), (''invite_link_count'', JNum 2)]
         (fieldMappings demo_users)
       = [(''id'', JStr ''x''), (''inviteLinkCount'', JNum 2)]"
    by (simp add: names(1,2))
  have "\<exists>r s. increment demo_dal demo_users_scoped ''inviteLinkCount'' (JNum 1)
                    [''inviteLinkCount''] = (Inr r, [s])"
    using sent [OF d] by simp
  with evaluated
  have D: "increment demo_dal demo_users_scoped ''inviteLinkCount'' (JNum 1) [''inviteLinkCount'']
       = (Inr \<lparr>ir_rowCount = 1, ir_rows = [[(''inviteLinkCount'', JNum 2)]]\<rparr>,
          [(''UPDATE users SET invite_link_count = invite_link_count + $2 WHERE id = $1 RETURNING invite_link_count'',
            [JStr ''x'', JNum 1])])"
    by simp
  show ?thesis
    by (intro conjI) (fact A, fact B, fact B', fact C, fact D, fact E, fact F)
qed

text \<open>
  C6, as stated, fails for a batched join: a builder on which the many-cardinality relation
  \<open>teams\<close> has been joined carries a batched join and no inline join clause, and \<open>increment\<close>
  sends its UPDATE.
\<close>

theorem increment_with_batched_join_counterexample:
  "qb_complexJoins (getJoin demo_users_scoped [(''teams'', JoinTrue)]) \<noteq> []
   \<and> increment demo_dal (getJoin demo_users_scoped [(''teams'', JoinTrue)])
        ''inviteLinkCount'' (JNum 1) []
      = (Inr \<lparr>ir_rowCount = 1, ir_rows = []\<rparr>,
         [(''UPDATE users SET invite_link_count = invite_link_count + $2 WHERE id = $1'',
           [JStr ''x'', JNum 1])])"
  by code_simp

section \<open>Relation helpers and junction tables\<close>

text \<open>
  C8, as the code has it. With a non-empty id list: \<open>addManyRelated\<close> rejects a relation
  that has no \<open>through\<close> specification with an error that says so (it names the relation, not
  the available ones); both helpers reject an unknown relation name with an error that lists
  the model's relations; and \<open>loadManyRelated\<close> serves a relation without a \<open>through\<close>
  specification by one direct SELECT on the target table, grouping the rows it gets back.
\<close>

theorem relation_helpers_junction_requirement:
  "(nonEmptyString sourceId = Some src \<and> uniqueIds targetIds \<noteq> []
      \<and> getRelation mc relationName = Some rc
      \<and> (rel_through rc = None \<or> rel_joinType rc \<noteq> Through)
      \<longrightarrow> addManyRelated dal ns mc relationName sourceId targetIds oc
          = (Inl (notJunctionRelation relationName), []))
   \<and> (nonEmptyString sourceId = Some src \<and> uniqueIds targetIds \<noteq> []
      \<and> getRelation mc relationName = None
      \<longrightarrow> addManyRelated dal ns mc relationName sourceId targetIds oc
          = (Inl (relationNotFound mc relationName), []))
   \<and> (uniqueIds sourceIds \<noteq> [] \<and> getRelation mc relationName = None
      \<longrightarrow> loadManyRelated dal reg ns mc relationName sourceIds
          = (Inl (relationNotFound mc relationName), []))
   \<and> (relations mc \<noteq> []
      \<longrightarrow> err_message (relationNotFound mc relationName)
          = ''Relation '' @ sq @ relationName @ sq @ '' not found for model '' @ sq
            @ tableName mc @ sq @ ''. Available relations: ''
            @ join '', '' (map fst (relations mc)))
   \<and> (uniqueIds sourceIds \<noteq> [] \<and> getRelation mc relationName = Some rc
      \<and> rel_through rc = None
      \<and> getModel reg (or_default (rel_targetModelKey rc) (rel_targetTable rc)) = Inr tm
      \<and> dal (''SELECT '' @ or_default (rel_targetColumn rc) ''id'' @ '' AS __source_id, * FROM ''
              @ ns @ rel_targetTable rc @ '' WHERE '' @ or_default (rel_targetColumn rc) ''id''
              @ '' IN ('' @ join '', '' (placeholders (length (uniqueIds sourceIds))) @ '')''
              @ (if rel_hasRevisions rc then revisionGuardsSql [] else []))
            (map JStr (uniqueIds sourceIds)) = Inr res
      \<longrightarrow> loadManyRelated dal reg ns mc relationName sourceIds
          = (Inr (groupBySourceId tm (qr_rows res)),
             [(''SELECT '' @ or_default (rel_targetColumn rc) ''id'' @ '' AS __source_id, * FROM ''
               @ ns @ rel_targetTable rc @ '' WHERE '' @ or_default (rel_targetColumn rc) ''id''
               @ '' IN ('' @ join '', '' (placeholders (length (uniqueIds sourceIds))) @ '')''
               @ (if rel_hasRevisions rc then revisionGuardsSql [] else []),
               map JStr (uniqueIds sourceIds))]))"
proof (intro conjI impI)
  assume "nonEmptyString sourceId = Some src \<and> uniqueIds targetIds \<noteq> []
      \<and> getRelation mc relationName = Some rc
      \<and> (rel_through rc = None \<or> rel_joinType rc \<noteq> Through)"
  then show "addManyRelated dal ns mc relationName sourceId targetIds oc
          = (Inl (notJunctionRelation relationName), [])"
    by (auto simp: addManyRelated_def Let_def split: option.splits join_type.splits)
next
  assume "nonEmptyString sourceId = Some src \<and> uniqueIds targetIds \<noteq> []
      \<and> getRelation mc relationName = None"
  then show "addManyRelated dal ns mc relationName sourceId targetIds oc
          = (Inl (relationNotFound mc relationName), [])"
    by (simp add: addManyRelated_def Let_def)
next
  assume "uniqueIds sourceIds \<noteq> [] \<and> getRelation mc relationName = None"
  then show "loadManyRelated dal reg ns mc relationName sourceIds
          = (Inl (relationNotFound mc relationName), [])"
    by (simp add: loadManyRelated_def Let_def)
next
  assume "relations mc \<noteq> []"
  then show "err_message (relationNotFound mc relationName)
          = ''Relation '' @ sq @ relationName @ sq @ '' not found for model '' @ sq
            @ tableName mc @ sq @ ''. Available relations: ''
            @ join '', '' (map fst (relations mc))"
    by (simp add: relationNotFound_def getRelations_def Error_def Let_def)
next
  assume h: "uniqueIds sourceIds \<noteq> [] \<and> getRelation mc relationName = Some rc
      \<and> rel_through rc = None
      \<and> getModel reg (or_default (rel_targetModelKey rc) (rel_targetTable rc)) = Inr tm
      \<and> dal (''SELECT '' @ or_default (rel_targetColumn rc) ''id'' @ '' AS __source_id, * FROM ''
              @ ns @ rel_targetTable rc @ '' WHERE '' @ or_default (rel_targetColumn rc) ''id''
              @ '' IN ('' @ join '', '' (placeholders (length (uniqueIds sourceIds))) @ '')''
              @ (if rel_hasRevisions rc then revisionGuardsSql [] else []))
            (map JStr (uniqueIds sourceIds)) = Inr res"
  define stmt where "stmt = ''SELECT '' @ or_default (rel_targetColumn rc) ''id'' @ '' AS __source_id, * FROM ''
              @ ns @ rel_targetTable rc @ '' WHERE '' @ or_default (rel_targetColumn rc) ''id''
              @ '' IN ('' @ join '', '' (placeholders (length (uniqueIds sourceIds))) @ '')''
              @ (if rel_hasRevisions rc then revisionGuardsSql [] else [])"
  from h have q: "loadManyRelatedQuery ns rc (length (uniqueIds sourceIds)) = stmt"
    by (simp add: loadManyRelatedQuery_def Let_def stmt_def)
  from h have answer: "dal stmt (map JStr (uniqueIds sourceIds)) = Inr res"
    unfolding stmt_def by blast
  from h have rest: "uniqueIds sourceIds \<noteq> []" "getRelation mc relationName = Some rc"
      "getModel reg (or_default (rel_targetModelKey rc) (rel_targetTable rc)) = Inr tm"
    by blast+
  have "loadManyRelated dal reg ns mc relationName sourceIds
          = (Inr (groupBySourceId tm (qr_rows res)), [(stmt, map JStr (uniqueIds sourceIds))])"
    using rest answer by (simp add: loadManyRelated_def Let_def q)
  then show "loadManyRelated dal reg ns mc relationName sourceIds
          = (Inr (groupBySourceId tm (qr_rows res)),
             [(''SELECT '' @ or_default (rel_targetColumn rc) ''id'' @ '' AS __source_id, * FROM ''
               @ ns @ rel_targetTable rc @ '' WHERE '' @ or_default (rel_targetColumn rc) ''id''
               @ '' IN ('' @ join '', '' (placeholders (length (uniqueIds sourceIds))) @ '')''
               @ (if rel_hasRevisions rc then revisionGuardsSql [] else []),
               map JStr (uniqueIds sourceIds))])"
    unfolding stmt_def .
qed

theorem relation_helpers_junction_requirement_witness:
  "addManyRelated demo_dal [] demo_users ''team'' (JStr ''u1'') [JStr ''t1''] Ignore
     = (Inl (notJunctionRelation ''team''), [])
   \<and> addManyRelated demo_dal [] demo_users ''nope'' (JStr ''u1'') [JStr ''t1''] Ignore
     = (Inl (relationNotFound demo_users ''nope''), [])
   \<and> loadManyRelated demo_dal demo_registry [] demo_users ''nope'' [JStr ''u1'']
     = (Inl (relationNotFound demo_users ''nope''), [])
   \<and> err_message (relationNotFound demo_users ''nope'')
     = ''Relation '' @ sq @ ''nope'' @ sq @ '' not found for model '' @ sq @ ''users'' @ sq
       @ ''. Available relations: teams, team''
   \<and> loadManyRelated demo_dal demo_registry [] demo_users ''team'' [JStr ''u1'']
     = (Inr [], [(''SELECT id AS __source_id, * FROM teams WHERE id IN ($1)'', [JStr ''u1''])])"
proof -
  have a: "nonEmptyString (JStr ''u1'') = Some ''u1'' \<and> uniqueIds [JStr ''t1''] \<noteq> []
      \<and> getRelation demo_users ''team'' = Some (the (getRelation demo_users ''team''))
      \<and> (rel_through (the (getRelation demo_users ''team'')) = None
          \<or> rel_joinType (the (getRelation demo_users ''team'')) \<noteq> Through)"
    by code_simp
  have b: "nonEmptyString (JStr ''u1'') = Some ''u1'' \<and> uniqueIds [JStr ''t1''] \<noteq> []
      \<and> getRelation demo_users ''nope'' = None"
    by code_simp
  have c: "uniqueIds [JStr ''u1''] \<noteq> [] \<and> getRelation demo_users ''nope'' = None"
    by code_simp
  have d: "relations demo_users \<noteq> []"
    by code_simp
  have evaluated:
    "err_message (relationNotFound demo_users ''nope'')
     = ''Relation '' @ sq @ ''nope'' @ sq @ '' not found for model '' @ sq @ ''users'' @ sq
       @ ''. Available relations: teams, team''
   \<and> loadManyRelated demo_dal demo_registry [] demo_users ''team'' [JStr ''u1'']
     = (Inr [], [(''SELECT id AS __source_id, * FROM teams WHERE id IN ($1)'', [JStr ''u1''])])"
    by code_simp
  note main = relation_helpers_junction_requirement
  from main [where sourceId = "JStr ''u1''" and src = "''u1''" and targetIds = "[JStr ''t1'']"
             and mc = demo_users and relationName = "''team''"
             and rc = "the (getRelation demo_users ''team'')" and dal = demo_dal and ns = "[]"
             and oc = Ignore] a
  have A: "addManyRelated demo_dal [] demo_users ''team'' (JStr ''u1'') [JStr ''t1''] Ignore
     = (Inl (notJunctionRelation ''team''), [])"
    by blast
  from main [where sourceId = "JStr ''u1''" and src = "''u1''" and targetIds = "[JStr ''t1'']"
             and sourceIds = "[JStr ''u1'']" and reg = demo_registry
             and mc = demo_users and relationName = "''nope''" and dal = demo_dal and ns = "[]"
             and oc = Ignore] b c
  have B: "addManyRelated demo_dal [] demo_users ''nope'' (JStr ''u1'') [JStr ''t1''] Ignore
     = (Inl (relationNotFound demo_users ''nope''), [])
     \<and> loadManyRelated demo_dal demo_registry [] demo_users ''nope'' [JStr ''u1'']
     = (Inl (relationNotFound demo_users ''nope''), [])"
    by blast
  from A B evaluated show ?thesis by blast
qed

text \<open>
  C8, as stated, fails for \<open>loadManyRelated\<close>: the relation \<open>team\<close> of the users model has no
  \<open>through\<close> specification, and a non-empty id list is served by a direct query.
\<close>

theorem loadManyRelated_direct_relation_counterexample:
  "map_option rel_through (getRelation demo_users ''team'') = Some None
   \<and> loadManyRelated demo_dal demo_registry [] demo_users ''team'' [JStr ''u1'']
     = (Inr [], [(''SELECT id AS __source_id, * FROM teams WHERE id IN ($1)'', [JStr ''u1''])])"
  by code_simp

section \<open>Guarded reads\<close>

lemma filterWhere_empty:
  "filterWhere mc ns reg hasRev [] = Inr (new_FilterWhereBuilder (new_QueryBuilder mc ns reg) hasRev)"
  by (simp add: filterWhere_def fw_and_def applyLiteral_def)

lemma sql_any_single: "(sql_any a [b] = Some True) = (a \<noteq> JNull \<and> b \<noteq> JNull \<and> a = b)"
  by (auto simp: sql_any_def sql_equal_def kleene_or_def)

lemma id_predicate:
  assumes "getDbFieldName mc ''id'' = ''id''"
  shows "fw_whereIn (includeStale (includeDeleted (new_FilterWhereBuilder (new_QueryBuilder mc ns reg) hasRev)))
            ''id'' [JStr ident] (Some ''uuid[]'')
         = Inr ((new_FilterWhereBuilder (new_QueryBuilder mc ns reg) hasRev)
                  \<lparr>fwb_builder := (new_QueryBuilder mc ns reg)
                     \<lparr>qb_where := [Basic None ''id'' ''= ANY'' (JArr [JStr ident])
                                     (Some (Parenthesized (Some ''uuid[]'')))]\<rparr>,
                    fwb_includeDeleted := True, fwb_includeStale := True\<rparr>)"
  using assms
  by (simp add: fw_whereIn_def includeStale_def includeDeleted_def new_FilterWhereBuilder_def
      new_QueryBuilder_def resolveFieldName_def assertResolvedField_def whereIn_def
      addWhereCondition_def createPredicate_def splitFieldReference_def
      resolvePredicateColumn_def includes_char_def truthy_str_def no_options_def is_space_def
      Let_def)

lemma buildSelectQuery_no_joins:
  "qb_joins qb = [] \<Longrightarrow> \<exists>st. buildSelectQuery qb = Inr st"
  by (simp add: buildSelectQuery_def Let_def split: prod.splits)

lemma guarded_fetch:
  assumes "getDbFieldName mc ''id'' = ''id''"
  shows "fst (fw_first ((new_FilterWhereBuilder (new_QueryBuilder mc ns reg) hasRev)
                  \<lparr>fwb_builder := (new_QueryBuilder mc ns reg)
                     \<lparr>qb_where := [Basic None ''id'' ''= ANY'' (JArr [JStr ident])
                                     (Some (Parenthesized (Some ''uuid[]'')))]\<rparr>,
                    fwb_includeDeleted := True, fwb_includeStale := True\<rparr>) tbl)
     = Inr (case filter (\<lambda>r. row_get r ''id'' = JStr ident) tbl of
              [] \<Rightarrow> None
            | r # _ \<Rightarrow> Some (createInstance mc (project_row (getColumnNames mc []) r)))"
proof -
  let ?qb = "(new_QueryBuilder mc ns reg)
                     \<lparr>qb_where := [Basic None ''id'' ''= ANY'' (JArr [JStr ident])
                                     (Some (Parenthesized (Some ''uuid[]'')))], qb_limit := Some 1\<rparr>"
  have j: "qb_joins ?qb = []" "qb_complexJoins ?qb = []"
    by (simp_all add: new_QueryBuilder_def)
  from buildSelectQuery_no_joins [OF j(1)] obtain st where st: "buildSelectQuery ?qb = Inr st" ..
  have m: "row_matches (qb_where ?qb) = (\<lambda>r. row_get r ''id'' = JStr ident)"
    by (auto simp: row_matches_def sql_any_single fun_eq_iff)
  have sel: "storage_select tbl ?qb
      = map (project_row (getColumnNames mc [])) (take 1 (filter (\<lambda>r. row_get r ''id'' = JStr ident) tbl))"
    unfolding storage_select_def m
    by (simp add: new_QueryBuilder_def apply_limit_def apply_offset_def)
  have run: "qb_run ?qb tbl = Inr (map (createInstance mc) (map (project_row (getColumnNames mc []))
       (take 1 (filter (\<lambda>r. row_get r ''id'' = JStr ident) tbl))))"
    using j st sel by (simp add: qb_run_def new_QueryBuilder_def)
  show ?thesis
    using run
    by (simp add: fw_first_def ensureRevisionFilters_def new_FilterWhereBuilder_def qb_first_def
        limit_def Let_def split: list.splits)
qed

text \<open>
  C4. An id that fails the UUID test is rejected with \<open>InvalidUUIDError\<close> and no query is
  sent. For a well-formed id, on a model whose \<open>id\<close> is not remapped and whose selected
  columns are stable and include the two revision markers, exactly one query is sent; it
  selects on the id alone (no default revision guard is added, whether or not the entity is
  revision-enabled), and the first row it finds is classified in this order: no row is
  \<open>DocumentNotFound\<close>, a row whose deleted flag is set is the "deleted" error, a row whose
  archived-marker is set is the "stale" error, and any other row is returned, hydrated.
\<close>

theorem getNotStaleOrDeleted_classifies:
  "(\<not> isUUID ident
      \<longrightarrow> getNotStaleOrDeleted isUUID mc ns reg hasRev ident tbl
          = (Inl (InvalidUUIDError (''Invalid '' @ tableName mc @ '' address format'')), 0))
   \<and> (isUUID ident \<and> getDbFieldName mc ''id'' = ''id'' \<and> columns_stable mc
        \<and> ''_rev_deleted'' \<in> set (getColumnNames mc [])
        \<and> ''_old_rev_of'' \<in> set (getColumnNames mc [])
      \<longrightarrow> getNotStaleOrDeleted isUUID mc ns reg hasRev ident tbl
          = (case filter (\<lambda>r. row_get r ''id'' = JStr ident) tbl of
               [] \<Rightarrow> (Inl (DocumentNotFound (tableName mc @ '' with id '' @ ident
                                               @ '' not found'')), 1)
             | r # _ \<Rightarrow>
                 if truthy (row_get r ''_rev_deleted'') then (Inl deletedError, 1)
                 else if truthy (row_get r ''_old_rev_of'') then (Inl staleError, 1)
                 else (Inr (createInstance mc (project_row (getColumnNames mc []) r)), 1)))"
proof (intro conjI impI)
  assume "\<not> isUUID ident"
  then show "getNotStaleOrDeleted isUUID mc ns reg hasRev ident tbl
          = (Inl (InvalidUUIDError (''Invalid '' @ tableName mc @ '' address format'')), 0)"
    by (simp add: getNotStaleOrDeleted_def)
next
  assume h: "isUUID ident \<and> getDbFieldName mc ''id'' = ''id'' \<and> columns_stable mc
        \<and> ''_rev_deleted'' \<in> set (getColumnNames mc [])
        \<and> ''_old_rev_of'' \<in> set (getColumnNames mc [])"
  then have idc: "getDbFieldName mc ''id'' = ''id''" and uu: "isUUID ident" by blast+
  have flags: "obj_get (inst_data (createInstance mc (project_row (getColumnNames mc []) r))) ''_rev_deleted''
        = row_get r ''_rev_deleted''"
      "obj_get (inst_data (createInstance mc (project_row (getColumnNames mc []) r))) ''_old_rev_of''
        = row_get r ''_old_rev_of''" for r
    using h by (simp_all add: hydrate_projected_row)
  show "getNotStaleOrDeleted isUUID mc ns reg hasRev ident tbl
          = (case filter (\<lambda>r. row_get r ''id'' = JStr ident) tbl of
               [] \<Rightarrow> (Inl (DocumentNotFound (tableName mc @ '' with id '' @ ident
                                               @ '' not found'')), 1)
             | r # _ \<Rightarrow>
                 if truthy (row_get r ''_rev_deleted'') then (Inl deletedError, 1)
                 else if truthy (row_get r ''_old_rev_of'') then (Inl staleError, 1)
                 else (Inr (createInstance mc (project_row (getColumnNames mc []) r)), 1))"
    unfolding getNotStaleOrDeleted_def filterWhere_empty
    using uu
    by (simp add: id_predicate [OF idc] guarded_fetch [OF idc] flags split: list.splits)
qed

theorem getNotStaleOrDeleted_classifies_witness:
  "getNotStaleOrDeleted uuid_v4_shape demo_documents [] demo_registry True ''x'' demo_table
     = (Inl (InvalidUUIDError ''Invalid documents address format''), 0)
   \<and> getNotStaleOrDeleted uuid_v4_shape demo_documents [] demo_registry True demo_deleted_id
        demo_table = (Inl deletedError, 1)
   \<and> getNotStaleOrDeleted uuid_v4_shape demo_documents [] demo_registry True demo_archived_id
        demo_table = (Inl staleError, 1)
   \<and> getNotStaleOrDeleted uuid_v4_shape demo_documents [] demo_registry True demo_missing_id
        demo_table
      = (Inl (DocumentNotFound (''documents with id '' @ demo_missing_id @ '' not found'')), 1)
   \<and> (\<exists>d. getNotStaleOrDeleted uuid_v4_shape demo_documents [] demo_registry True demo_live_id
             demo_table = (Inr d, 1))"
proof -
  have bad: "\<not> uuid_v4_shape ''x''"
    by code_simp
  have good: "uuid_v4_shape demo_live_id \<and> getDbFieldName demo_documents ''id'' = ''id''
        \<and> columns_stable demo_documents
        \<and> ''_rev_deleted'' \<in> set (getColumnNames demo_documents [])
        \<and> ''_old_rev_of'' \<in> set (getColumnNames demo_documents [])"
    by code_simp
  have found: "filter (\<lambda>r. row_get r ''id'' = JStr demo_live_id) demo_table = [hd demo_table]"
    "\<not> truthy (row_get (hd demo_table) ''_rev_deleted'')"
    "\<not> truthy (row_get (hd demo_table) ''_old_rev_of'')"
    by code_simp+
  have others:
    "getNotStaleOrDeleted uuid_v4_shape demo_documents [] demo_registry True demo_deleted_id
        demo_table = (Inl deletedError, 1)
     \<and> getNotStaleOrDeleted uuid_v4_shape demo_documents [] demo_registry True demo_archived_id
        demo_table = (Inl staleError, 1)
     \<and> getNotStaleOrDeleted uuid_v4_shape demo_documents [] demo_registry True demo_missing_id
        demo_table
      = (Inl (DocumentNotFound (''documents with id '' @ demo_missing_id @ '' not found'')), 1)"
    by code_simp
  note main = getNotStaleOrDeleted_classifies
  from main [where isUUID = uuid_v4_shape and ident = "''x''" and mc = demo_documents
               and ns = "[]" and reg = demo_registry and hasRev = True and tbl = demo_table] bad
  have A: "getNotStaleOrDeleted uuid_v4_shape demo_documents [] demo_registry True ''x'' demo_table
     = (Inl (InvalidUUIDError ''Invalid documents address format''), 0)"
    by (simp add: demo_documents_def)
  from main [where isUUID = uuid_v4_shape and ident = demo_live_id and mc = demo_documents
               and ns = "[]" and reg = demo_registry and hasRev = True and tbl = demo_table] good
  have B: "\<exists>d. getNotStaleOrDeleted uuid_v4_shape demo_documents [] demo_registry True
                  demo_live_id demo_table = (Inr d, 1)"
    by (simp add: found)
  from A B others show ?thesis by blast
qed

section \<open>Lazy revision guards\<close>

lemma createPredicate_ignores_where [simp]:
  "createPredicate (qb\<lparr>qb_where := w\<rparr>) field operator v options
     = createPredicate qb field operator v options"
  by (simp add: createPredicate_def resolvePredicateColumn_def resolveFieldName_def Let_def
      split: prod.splits)



lemma applied_after_ensure [simp]:
  "fwb_revisionFiltersApplied (ensureRevisionFilters fw)"
  by (simp add: ensureRevisionFilters_def Let_def)












text \<open>
  C3, as stated, fails for a history query: in \<open>filterWhere({}).getAllRevisions(id).run()\<close>
  neither \<open>includeDeleted()\<close> nor \<open>includeStale()\<close> is called, and the statement that \<open>run\<close> sends
  carries neither guard; on the example table it returns the archived row beside the live
  one.
\<close>

theorem getAllRevisions_suppresses_guards_counterexample:
  "(case filterWhere demo_documents [] demo_registry True [] of
      Inl e \<Rightarrow> False
    | Inr fw0 \<Rightarrow>
        (case chain fw0 [CallGetAllRevisions (JStr demo_live_id)] of
           Inl e \<Rightarrow> False
         | Inr fw \<Rightarrow>
             fst (execute fw ExecRun)
               = Inr (Some (''SELECT documents.id, documents.title, documents._rev_user, documents._rev_date, documents._rev_id, documents._old_rev_of, documents._rev_deleted, documents._rev_tags FROM documents WHERE (documents.id = $1 OR documents._old_rev_of = $2)'',
                            [JStr demo_live_id, JStr demo_live_id]))
             \<and> map (\<lambda>d. obj_get (inst_data d) ''id'')
                   (case fst (fw_run fw demo_table) of Inr found \<Rightarrow> found | Inl e \<Rightarrow> [])
                 = [JStr demo_live_id, JStr demo_archived_id]))"
  by code_simp

section \<open>Revision histories\<close>



lemma set_add_member: "x \<in> set (set_add x xs)"
  by (simp add: set_add_def)

















lemma trackOriginalValues_virtualFields [simp]:
  "inst_virtualFields (trackOriginalValues mc inst) = inst_virtualFields inst"
proof -
  have "inst_virtualFields (fold (\<lambda>entry acc.
             if \<not> isVirtual (snd entry) then
               let dbFieldName = getDbFieldName mc (fst entry);
                   v = obj_get (inst_data acc) dbFieldName
               in if is_object v
                  then acc\<lparr>inst_originalData := obj_set dbFieldName v (inst_originalData acc)\<rparr>
                  else acc\<lparr>inst_originalData := obj_delete dbFieldName (inst_originalData acc)\<rparr>
             else acc) es inst) = inst_virtualFields inst"
    for es :: "(string \<times> field_def) list"
    by (induction es arbitrary: inst) (simp_all add: Let_def)
  then show ?thesis by (simp add: trackOriginalValues_def)
qed


lemma store_value_defined [simp]: "store_value v \<noteq> JUndefined"
  by (simp add: store_value_def)

lemma row_get_defined: "obj_get r c \<noteq> JUndefined \<Longrightarrow> row_get r c = obj_get r c"
  by (cases "obj_get r c") (simp_all add: row_get_def)

lemma row_get_store: "row_get r c = store_value (obj_get r c)"
  by (cases "obj_get r c") (simp_all add: row_get_def store_value_def)





















lemma isNew_setValue [simp]: "inst_isNew (setValue mc inst k v) = inst_isNew inst"
  by (simp add: setValue_def split: option.splits)

lemma isNew_detectInPlaceChanges [simp]:
  "inst_isNew (detectInPlaceChanges mc inst) = inst_isNew inst"
proof -
  have "inst_isNew (fold (\<lambda>entry acc.
                let fieldName = fst entry in
                if \<not> isVirtual (snd entry) \<and> \<not> startsWith fieldName ''_'' then
                  let originalValue = obj_get (inst_originalData acc) (getDbFieldName mc fieldName)
                  in if originalValue \<noteq> JUndefined \<and> getValue mc acc fieldName \<noteq> originalValue
                     then setValue mc acc fieldName (getValue mc acc fieldName)
                     else acc
                else acc) es inst) = inst_isNew inst"
    for es :: "(string \<times> field_def) list"
    by (induction es arbitrary: inst) (simp_all add: Let_def)
  then show ?thesis by (simp add: detectInPlaceChanges_def)
qed



lemma write_no_columns [simp]: "write_columns [] vals r = r"
  by (simp add: write_columns_def)













lemma row_get_stored: "obj_get r c = store_value v \<Longrightarrow> row_get r c = store_value v"
  by (simp add: row_get_store store_value_def)




















section \<open>Deleting all revisions\<close>







end
